theory Spec2Isabelle
  imports Main
begin

section \<open>JavaScript values\<close>

text \<open>
  Request bodies, token payloads and stored answers are JSON values.  An object is the
  list of its own properties in creation order (keys distinct); a number is an integer
  (option indices, course ids and counters are integral everywhere in the portal).
  A property that is absent, and an array read out of range, is \<open>undefined\<close>, written
  \<open>None\<close> in an \<open>option\<close>.
\<close>

datatype json =
    JNull
  | JBool bool
  | JNum int
  | JStr string
  | JArr "json list"
  | JObj "(string \<times> json) list"

datatype js_error = TypeError

text \<open>Truthiness, as \<open>!x\<close> and \<open>a || b\<close> test it.\<close>

fun truthy :: "json \<Rightarrow> bool" where
  "truthy JNull = False"
| "truthy (JBool b) = b"
| "truthy (JNum n) = (n \<noteq> 0)"
| "truthy (JStr s) = (s \<noteq> [])"
| "truthy (JArr xs) = True"
| "truthy (JObj kvs) = True"

fun truthy_opt :: "json option \<Rightarrow> bool" where
  "truthy_opt None = False"
| "truthy_opt (Some v) = truthy v"

subsection \<open>Property order and \<open>Object.values\<close>\<close>

definition digit_chars :: "char list" where
  "digit_chars = ''0123456789''"

definition is_digit :: "char \<Rightarrow> bool" where
  "is_digit c = (c \<in> set digit_chars)"

definition digit_val :: "char \<Rightarrow> nat" where
  "digit_val c = of_char c - 48"

definition nat_of_digits :: "string \<Rightarrow> nat" where
  "nat_of_digits s = foldl (\<lambda>a c. 10 * a + digit_val c) 0 s"

text \<open>
  An array index is a canonical numeric string (no leading zero) below \<open>2^32 - 1\<close>.
  Own property keys are enumerated array indices first, in ascending numeric order, then
  the other string keys in creation order.
\<close>

definition is_array_index :: "string \<Rightarrow> bool" where
  "is_array_index k =
     (k \<noteq> [] \<and> list_all is_digit k \<and> (k = ''0'' \<or> hd k \<noteq> CHR ''0'')
      \<and> nat_of_digits k < 4294967295)"

definition own_property_order :: "(string \<times> json) list \<Rightarrow> (string \<times> json) list" where
  "own_property_order kvs =
     sort_key (\<lambda>kv. nat_of_digits (fst kv)) (filter (\<lambda>kv. is_array_index (fst kv)) kvs)
     @ filter (\<lambda>kv. \<not> is_array_index (fst kv)) kvs"

fun Object_values :: "json \<Rightarrow> js_error + json list" where
  "Object_values JNull = Inl TypeError"
| "Object_values (JBool b) = Inr []"
| "Object_values (JNum n) = Inr []"
| "Object_values (JStr s) = Inr (map (\<lambda>c. JStr [c]) s)"
| "Object_values (JArr xs) = Inr xs"
| "Object_values (JObj kvs) = Inr (map snd (own_property_order kvs))"

text \<open>\<open>arr[i]\<close>: \<open>undefined\<close> out of range.\<close>

definition index :: "'a list \<Rightarrow> nat \<Rightarrow> 'a option" where
  "index xs i = (if i < length xs then Some (xs ! i) else None)"

text \<open>
  \<open>ns.includes(v)\<close> for an array of numbers \<open>ns\<close>: only a number can be found in it, by
  value; \<open>null\<close>, \<open>undefined\<close> and every other value are not members.
\<close>

fun includes_js :: "int list \<Rightarrow> json option \<Rightarrow> bool" where
  "includes_js ns (Some (JNum n)) = (n \<in> set ns)"
| "includes_js ns v = False"

section \<open>Question forms and scoring\<close>

text \<open>The question schema: every field is required, \<open>correctAnswer\<close> is an array of numbers.\<close>

record question =
  questionId :: string
  question :: string
  options :: "string list"
  correctAnswer :: "int list"

text \<open>The loop of \<open>calculateMarks\<close>, from index \<open>i\<close> with \<open>mark\<close> points so far.\<close>

function calculateMarks_loop :: "question list \<Rightarrow> json list \<Rightarrow> nat \<Rightarrow> int \<Rightarrow> int" where
  "calculateMarks_loop questions answerarr i mark =
     (if i < length questions
      then calculateMarks_loop questions answerarr (i + 1)
             (if includes_js (correctAnswer (questions ! i)) (index answerarr i)
              then mark + 1 else mark)
      else mark)"
  by pat_completeness auto
termination
  by (relation "measure (\<lambda>(questions, answerarr, i, mark). length questions - i)") auto

declare calculateMarks_loop.simps [simp del]

definition calculateMarks :: "question list \<Rightarrow> json \<Rightarrow> js_error + int" where
  "calculateMarks questions userAnswers =
     (case Object_values userAnswers of
        Inl e \<Rightarrow> Inl e
      | Inr answerarr \<Rightarrow> Inr (calculateMarks_loop questions answerarr 0 0))"

section \<open>More of JavaScript: strings, property access, casts\<close>

text \<open>Decimal notation of a natural number, and \<open>Number.prototype.toString\<close> on integers.\<close>

function show_nat :: "nat \<Rightarrow> string" where
  "show_nat n =
     (if n < 10 then [digit_chars ! n]
      else show_nat (n div 10) @ [digit_chars ! (n mod 10)])"
  by pat_completeness auto
termination
  by (relation "measure (\<lambda>n. n)") auto

declare show_nat.simps [simp del]

definition show_int :: "int \<Rightarrow> string" where
  "show_int i = (if i < 0 then CHR ''-'' # show_nat (nat (- i)) else show_nat (nat i))"

fun join_comma :: "string list \<Rightarrow> string" where
  "join_comma [] = []"
| "join_comma [s] = s"
| "join_comma (s # t # ss) = s @ '','' @ join_comma (t # ss)"

text \<open>
  \<open>String(v)\<close>, as a template literal and \<open>RegExp.prototype.test\<close> apply it: an array joins
  the strings of its elements with commas, \<open>null\<close> elements giving the empty string.
\<close>

fun toString_js :: "json \<Rightarrow> string" where
  "toString_js JNull = ''null''"
| "toString_js (JBool b) = (if b then ''true'' else ''false'')"
| "toString_js (JNum n) = show_int n"
| "toString_js (JStr s) = s"
| "toString_js (JArr xs) =
     join_comma (map (\<lambda>x. if x = JNull then [] else toString_js x) xs)"
| "toString_js (JObj kvs) = ''[object Object]''"

text \<open>
  The string cast the record store applies to a value queried or stored on a \<open>String\<close>
  path: strings, numbers and booleans are converted, arrays and plain objects are
  refused (the query throws).
\<close>

fun cast_String :: "json \<Rightarrow> string option" where
  "cast_String (JStr s) = Some s"
| "cast_String (JNum n) = Some (show_int n)"
| "cast_String (JBool b) = Some (if b then ''true'' else ''false'')"
| "cast_String v = None"

text \<open>\<open>s.includes(t)\<close> on strings.\<close>

fun starts_with :: "string \<Rightarrow> string \<Rightarrow> bool" where
  "starts_with s [] = True"
| "starts_with [] (c # t) = False"
| "starts_with (d # s) (c # t) = (d = c \<and> starts_with s t)"

fun includes_str :: "string \<Rightarrow> string \<Rightarrow> bool" where
  "includes_str [] t = (t = [])"
| "includes_str (d # s) t = (starts_with (d # s) t \<or> includes_str s t)"

text \<open>\<open>/^\d{n}$/.test(v)\<close>: the string of \<open>v\<close> is exactly \<open>n\<close> decimal digits.\<close>

definition test_digits :: "nat \<Rightarrow> json \<Rightarrow> bool" where
  "test_digits n v = (length (toString_js v) = n \<and> list_all is_digit (toString_js v))"

text \<open>
  Reading a property of a parsed value by name; destructuring \<open>null\<close> throws, every
  other value without the property gives \<open>undefined\<close>.
\<close>

fun get_prop :: "json \<Rightarrow> string \<Rightarrow> json option" where
  "get_prop (JObj kvs) k = map_of kvs k"
| "get_prop v k = None"

text \<open>An object literal: properties whose value is \<open>undefined\<close> do not reach the JSON text.\<close>

fun object_of :: "(string \<times> json option) list \<Rightarrow> (string \<times> json) list" where
  "object_of [] = []"
| "object_of ((k, None) # kvs) = object_of kvs"
| "object_of ((k, Some v) # kvs) = (k, v) # object_of kvs"

text \<open>\<open>a || b\<close> on possibly undefined values.\<close>

definition or_else :: "json option \<Rightarrow> json option \<Rightarrow> json option" where
  "or_else a b = (if truthy_opt a then a else b)"

section \<open>Requests, responses and the environment of a handler\<close>

record request =
  session_token :: "string option"       \<comment> \<open>the \<open>session_token\<close> cookie\<close>
  x_forwarded_for :: "string option"
  user_agent :: "string option"
  formId_param :: "string option"        \<comment> \<open>\<open>?formId=\<close> of the URL\<close>
  json_body :: "string + json"           \<comment> \<open>\<open>req.json()\<close>: the parsed body, or the parse error's message\<close>

record response =
  status :: nat
  body :: json
  cookie_set :: "string option"          \<comment> \<open>the \<open>session_token\<close> cookie set by the response\<close>

definition json_response :: "nat \<Rightarrow> (string \<times> json) list \<Rightarrow> response" where
  "json_response st kvs = \<lparr>status = st, body = JObj kvs, cookie_set = None\<rparr>"

definition failure :: "nat \<Rightarrow> string \<Rightarrow> response" where
  "failure st msg = json_response st [(''success'', JBool False), (''message'', JStr msg)]"

text \<open>
  What a handler takes from outside the program: the token library (\<open>jwtVerify\<close> gives the
  claims of a token that verifies now, \<open>SignJWT\<close> signs claims for a lifetime), the clock
  (\<open>Date_now k\<close> is the handler's \<open>k\<close>-th reading, numbered in source order), the random
  source (\<open>random i\<close> is the number drawn for \<open>i\<close>, reduced to the range asked for),
  whether the messaging call went through, the date formatter and the build mode.
  \<open>String_trim\<close> is \<open>String.prototype.trim\<close>, the built-in that strips the white space and
  line terminators of Unicode from both ends.  \<open>LocalTZA t isUTC\<close> is the offset of the
  server's local time zone in milliseconds, as the language defines it: at the instant
  \<open>t\<close> when \<open>isUTC\<close>, at the local time \<open>t\<close> otherwise.
  \<open>verify_otp_SignJWT\<close> is what the name \<open>SignJWT\<close> denotes inside the OTP verification
  module: that file as it stands imports no such name (\<open>None\<close>, and constructing the token
  throws a \<open>ReferenceError\<close>); \<open>Some\<close> is the module with the import in place.
  The record store is taken to answer every query; its connection errors are not part
  of the model.
\<close>

record env =
  jwtVerify :: "string \<Rightarrow> (string \<times> json) list option"
  SignJWT :: "(string \<times> json) list \<Rightarrow> string \<Rightarrow> string"
  verify_otp_SignJWT :: "((string \<times> json) list \<Rightarrow> string \<Rightarrow> string) option"
  Date_now :: "nat \<Rightarrow> int"
  random :: "nat \<Rightarrow> nat"
  dispatch_ok :: bool
  toISOString :: "int \<Rightarrow> string"
  development :: bool
  String_trim :: "string \<Rightarrow> string"
  LocalTZA :: "int \<Rightarrow> bool \<Rightarrow> int"

text \<open>
  The \<open>catch\<close> blocks: an error whose message mentions the connection or a timeout is
  answered 503, every other one 500.  (No error of the model is a \<open>MongoNetworkError\<close>.)
\<close>

definition connectivity :: "string \<Rightarrow> bool" where
  "connectivity msg = (includes_str msg ''connection'' \<or> includes_str msg ''timeout'')"

section \<open>The record store\<close>

text \<open>
  The student schema with its session fields (the one whose module exports \<open>IStudent\<close>,
  as the roll verification imports it).  Fields a document may lack are options; the
  descriptive fields are kept as the JSON values they are copied out as.
\<close>

record session_data =
  isActive :: bool
  startTime :: "int option"
  deviceId :: "string option"
  expiresAt :: "int option"

record student =
  student_id :: string                   \<comment> \<open>\<open>_id\<close>\<close>
  Student_Name :: "json option"
  Student_RollNo :: string
  Branch :: "json option"
  College_Name :: "json option"
  University_Name :: "json option"
  Course_ID :: "json option"
  Student_Phone :: "json option"
  marks :: "int option"
  answers :: json
  attempted :: bool
  sessionData :: session_data

record form =
  formId :: string
  questions :: "question list"

record otp_record =
  phone :: string
  countryCode :: json
  otp :: string
  createdAt :: int

text \<open>\<open>Model.findOne\<close>: the first document of the collection that matches.\<close>

definition findOne :: "('a \<Rightarrow> bool) \<Rightarrow> 'a list \<Rightarrow> 'a option" where
  "findOne P docs = find P docs"

text \<open>\<open>Model.updateOne\<close>: the first document that matches is changed, if there is one.\<close>

fun updateOne :: "('a \<Rightarrow> bool) \<Rightarrow> ('a \<Rightarrow> 'a) \<Rightarrow> 'a list \<Rightarrow> 'a list" where
  "updateOne P f [] = []"
| "updateOne P f (d # docs) = (if P d then f d # docs else d # updateOne P f docs)"

text \<open>\<open>Model.deleteOne\<close>: the first document that matches is removed.\<close>

fun deleteOne :: "('a \<Rightarrow> bool) \<Rightarrow> 'a list \<Rightarrow> 'a list" where
  "deleteOne P [] = []"
| "deleteOne P (d # docs) = (if P d then docs else d # deleteOne P docs)"

text \<open>
  \<open>Student.findById\<close> with the \<open>studentId\<close> claim of a token; only a string names a
  document.
\<close>

fun findById :: "student list \<Rightarrow> json option \<Rightarrow> student option" where
  "findById docs (Some (JStr i)) = findOne (\<lambda>d. student_id d = i) docs"
| "findById docs v = None"

text \<open>
  \<open>QuestionModel.findOne({formId})\<close>: the filter value is cast to a string; a value the
  cast refuses makes the query throw (\<open>Inl\<close>), an \<open>undefined\<close> one matches no form.
\<close>

datatype store_error = CastError

fun findForm :: "form list \<Rightarrow> json option \<Rightarrow> store_error + form option" where
  "findForm docs None = Inr None"
| "findForm docs (Some v) =
     (case cast_String v of
        None \<Rightarrow> Inl CastError
      | Some i \<Rightarrow> Inr (findOne (\<lambda>d. formId d = i) docs))"

section \<open>Submission: \<open>POST /api/exam/submit\<close>\<close>

text \<open>\<open>courseId?.toString()\<close>.\<close>

fun optional_toString :: "json option \<Rightarrow> json option" where
  "optional_toString None = None"
| "optional_toString (Some JNull) = None"
| "optional_toString (Some v) = Some (JStr (toString_js v))"

definition internal_error :: "string \<Rightarrow> string \<Rightarrow> string \<Rightarrow> response" where
  "internal_error busy generic msg =
     (if connectivity msg then failure 503 busy else failure 500 generic)"

definition submit_error :: "string \<Rightarrow> response" where
  "submit_error msg =
     internal_error ''Database connectivity issue. Please try again.''
       ''An error occurred during exam submission'' msg"

definition record_submission :: "int \<Rightarrow> json \<Rightarrow> student \<Rightarrow> student" where
  "record_submission m a d =
     d\<lparr>marks := Some m, answers := a, attempted := True,
       sessionData := (sessionData d)\<lparr>isActive := False\<rparr>\<rparr>"

definition already_attempted :: response where
  "already_attempted =
     json_response 400
       [(''success'', JBool False), (''message'', JStr ''Exam already attempted''),
        (''code'', JStr ''ALREADY_ATTEMPTED'')]"

definition submit_POST ::
  "env \<Rightarrow> form list \<Rightarrow> student list \<Rightarrow> request \<Rightarrow> student list \<times> response" where
  "submit_POST e fs studs req =
     (case session_token req of
        None \<Rightarrow> (studs, failure 401 ''Unauthorized access'')
      | Some sessionToken \<Rightarrow>
     if sessionToken = [] then (studs, failure 401 ''Unauthorized access'')
     else
     (case jwtVerify e sessionToken of
        None \<Rightarrow> (studs, failure 401 ''Invalid or expired session'')
      | Some payload \<Rightarrow>
     (case json_body req of
        Inl msg \<Rightarrow> (studs, submit_error msg)
      | Inr JNull \<Rightarrow>
          (studs, submit_error
             ''Cannot destructure property 'answers' of 'body' as it is null.'')
      | Inr b \<Rightarrow>
     (case get_prop b ''answers'' of
        None \<Rightarrow> (studs, failure 400 ''Answers are required'')
      | Some ans \<Rightarrow>
     if \<not> truthy ans then (studs, failure 400 ''Answers are required'')
     else
     (case findById studs (map_of payload ''studentId'') of
        None \<Rightarrow> (studs, failure 404 ''Student not found'')
      | Some stud \<Rightarrow>
     if attempted stud then
       (studs, already_attempted)
     else
     (case findForm fs (optional_toString (map_of payload ''courseId'')) of
        Inl err \<Rightarrow> (studs, submit_error ''Cast to string failed'')
      | Inr None \<Rightarrow> (studs, failure 404 ''Form not found for this course'')
      | Inr (Some frm) \<Rightarrow>
     (case calculateMarks (questions frm) ans of
        Inl err \<Rightarrow> (studs, submit_error ''Cannot convert undefined or null to object'')
      | Inr m \<Rightarrow>
          (updateOne (\<lambda>d. student_id d = student_id stud) (record_submission m ans) studs,
           json_response 200
             [(''success'', JBool True), (''message'', JStr ''Exam submitted successfully''),
              (''totalQuestions'', JNum (int (length (questions frm))))]))))))))"

section \<open>Roll verification: \<open>POST /api/auth/verify-roll\<close>\<close>

definition roll_error :: "string \<Rightarrow> response" where
  "roll_error msg =
     internal_error ''We're experiencing high traffic. Please try again in a moment.''
       ''An error occurred while verifying your roll number. Please try again.'' msg"

text \<open>\<open>jwtVerify(token, JWT_SECRET)\<close> on a value of the body: only a string can verify.\<close>

fun verify_value :: "env \<Rightarrow> json option \<Rightarrow> (string \<times> json) list option" where
  "verify_value e (Some (JStr t)) = jwtVerify e t"
| "verify_value e v = None"

text \<open>\<open>new Date(student.sessionData.expiresAt || 0)\<close>, in milliseconds.\<close>

definition expiryTime :: "student \<Rightarrow> int" where
  "expiryTime d = (case expiresAt (sessionData d) of None \<Rightarrow> 0 | Some t \<Rightarrow> t)"

definition deviceInfo :: "student \<Rightarrow> string" where
  "deviceInfo d =
     (case deviceId (sessionData d) of
        None \<Rightarrow> ''another device''
      | Some i \<Rightarrow> if i = [] then ''another device'' else i)"

text \<open>
  Dates are time values, milliseconds since the epoch, within the range of \<open>Date\<close>.
  \<open>getHours\<close> and \<open>setHours\<close> work on local time, as the language defines them: the time
  value is moved to local time, split into day, hour, minute, second and millisecond,
  put together again with the new hour (an hour beyond 23 runs into the next day), and
  moved back.
\<close>

definition msPerSecond :: int where
  "msPerSecond = 1000"

definition msPerMinute :: int where
  "msPerMinute = 60000"

definition msPerHour :: int where
  "msPerHour = 3600000"

definition msPerDay :: int where
  "msPerDay = 86400000"

definition Day :: "int \<Rightarrow> int" where
  "Day t = t div msPerDay"

definition HourFromTime :: "int \<Rightarrow> int" where
  "HourFromTime t = (t div msPerHour) mod 24"

definition MinFromTime :: "int \<Rightarrow> int" where
  "MinFromTime t = (t div msPerMinute) mod 60"

definition SecFromTime :: "int \<Rightarrow> int" where
  "SecFromTime t = (t div msPerSecond) mod 60"

definition msFromTime :: "int \<Rightarrow> int" where
  "msFromTime t = t mod msPerSecond"

definition MakeTime :: "int \<Rightarrow> int \<Rightarrow> int \<Rightarrow> int \<Rightarrow> int" where
  "MakeTime hour minute sec ms = hour * msPerHour + minute * msPerMinute + sec * msPerSecond + ms"

definition MakeDate :: "int \<Rightarrow> int \<Rightarrow> int" where
  "MakeDate day time = day * msPerDay + time"

definition LocalTime :: "env \<Rightarrow> int \<Rightarrow> int" where
  "LocalTime e t = t + LocalTZA e t True"

definition UTC :: "env \<Rightarrow> int \<Rightarrow> int" where
  "UTC e t = t - LocalTZA e t False"

definition getHours :: "env \<Rightarrow> int \<Rightarrow> int" where
  "getHours e t = HourFromTime (LocalTime e t)"

definition setHours :: "env \<Rightarrow> int \<Rightarrow> int \<Rightarrow> int" where
  "setHours e t hour =
     UTC e (MakeDate (Day (LocalTime e t))
              (MakeTime hour (MinFromTime (LocalTime e t)) (SecFromTime (LocalTime e t))
                 (msFromTime (LocalTime e t))))"

text \<open>
  \<open>const expiresAt = new Date(); expiresAt.setHours(expiresAt.getHours() + 5)\<close>, the
  date being clock reading 3 of the roll verification.
\<close>

definition session_expiry :: "env \<Rightarrow> int" where
  "session_expiry e = setHours e (Date_now e 3) (getHours e (Date_now e 3) + 5)"

definition device_of :: "request \<Rightarrow> string" where
  "device_of req =
     take 50 (case user_agent req of
                None \<Rightarrow> ''unknown''
              | Some ua \<Rightarrow> if ua = [] then ''unknown'' else ua)"

text \<open>A value written to a \<open>String\<close> path: \<open>undefined\<close> is left out of the update.\<close>

fun stored_string :: "json option \<Rightarrow> json option \<Rightarrow> store_error + json option" where
  "stored_string old None = Inr old"
| "stored_string old (Some JNull) = Inr (Some JNull)"
| "stored_string old (Some v) =
     (case cast_String v of None \<Rightarrow> Inl CastError | Some s \<Rightarrow> Inr (Some (JStr s)))"

definition claim_session :: "json option \<Rightarrow> session_data \<Rightarrow> student \<Rightarrow> student" where
  "claim_session ph sd d = d\<lparr>Student_Phone := ph, sessionData := sd\<rparr>"

definition session_claims :: "env \<Rightarrow> student \<Rightarrow> json option \<Rightarrow> (string \<times> json) list" where
  "session_claims e d ph =
     object_of
       [(''studentId'', Some (JStr (student_id d))),
        (''rollNumber'', Some (JStr (Student_RollNo d))),
        (''phone'', ph),
        (''name'', Student_Name d),
        (''sessionStart'', Some (JStr (toISOString e (Date_now e 5)))),
        (''sessionExpires'', Some (JStr (toISOString e (session_expiry e)))),
        (''courseId'', Course_ID d)]"

definition login_response :: "env \<Rightarrow> student \<Rightarrow> string \<Rightarrow> response" where
  "login_response e d tok =
     \<lparr>status = 200,
      body = JObj (object_of
        [(''success'', Some (JBool True)),
         (''message'', Some (JStr ''Login successful'')),
         (''studentName'', Student_Name d),
         (''expiresAt'', Some (JStr (toISOString e (session_expiry e)))),
         (''studentInfo'', Some (JObj (object_of
            [(''name'', Student_Name d),
             (''rollNumber'', Some (JStr (Student_RollNo d))),
             (''branch'', Branch d),
             (''college'', College_Name d),
             (''courseId'', Course_ID d),
             (''university'', University_Name d)])))]),
      cookie_set = Some tok\<rparr>"

text \<open>
  The clock readings of this handler, in source order: 0 and 1 for the request id and
  the start of the request, 2 in the comparison with the stored expiry, 3 for the new
  expiry, 4 for \<open>sessionData.startTime\<close>, 5 for the \<open>sessionStart\<close> claim, 6 for the log.
\<close>

definition verify_roll_POST :: "env \<Rightarrow> student list \<Rightarrow> request \<Rightarrow> student list \<times> response" where
  "verify_roll_POST e studs req =
     (case json_body req of
        Inl msg \<Rightarrow> (studs, failure 400 ''Invalid request format'')
      | Inr JNull \<Rightarrow>
          (studs, roll_error
             ''Cannot destructure property 'rollNumber' of 'body' as it is null.'')
      | Inr b \<Rightarrow>
     if \<not> truthy_opt (get_prop b ''rollNumber'') \<or> \<not> truthy_opt (get_prop b ''token'')
     then (studs, failure 400 ''Roll number and token required'')
     else
     (case verify_value e (get_prop b ''token'') of
        None \<Rightarrow>
          (studs, failure 401
             ''Verification token expired or invalid. Please verify your phone number again.'')
      | Some payload \<Rightarrow>
     if \<not> truthy_opt (map_of payload ''verified'')
     then (studs, failure 401 ''Phone number not verified'')
     else
     (case get_prop b ''rollNumber'' of
        Some (JStr rollNumber) \<Rightarrow>
          (case findOne (\<lambda>d. Student_RollNo d = String_trim e rollNumber) studs of
             None \<Rightarrow>
               (studs, failure 404 ''Student not found. Please check your roll number.'')
           | Some stud \<Rightarrow>
          if attempted stud
          then (studs, failure 400 ''You have already attempted this exam.'')
          else if isActive (sessionData stud) \<and> expiryTime stud > Date_now e 2
          then (studs, failure 409
                  (''You already have an active session on '' @ deviceInfo stud
                   @ ''. Only one device can be used at a time.''))
          else
          (case stored_string (Student_Phone stud) (map_of payload ''phone'') of
             Inl err \<Rightarrow> (studs, roll_error ''Cast to string failed'')
           | Inr ph \<Rightarrow>
               (updateOne (\<lambda>d. student_id d = student_id stud)
                  (claim_session ph
                     \<lparr>isActive = True, startTime = Some (Date_now e 4),
                      deviceId = Some (device_of req),
                      expiresAt = Some (session_expiry e)\<rparr>)
                  studs,
                login_response e stud
                  (SignJWT e (session_claims e stud (map_of payload ''phone'')) ''5h''))))
      | _ \<Rightarrow> (studs, roll_error ''rollNumber.trim is not a function''))))"

section \<open>One-time passcodes: \<open>POST /api/auth/send-otp\<close> and \<open>POST /api/auth/verify-otp\<close>\<close>

record rate_entry =
  count :: nat
  timestamp :: int

definition RATE_LIMIT_WINDOW :: int where
  "RATE_LIMIT_WINDOW = 15 * 60 * 1000"

definition MAX_REQUESTS :: nat where
  "MAX_REQUESTS = 5"

definition send_error :: response where
  "send_error = failure 500 ''An error occurred while processing your request''"

definition header_or_unknown :: "string option \<Rightarrow> string" where
  "header_or_unknown h = (case h of None \<Rightarrow> ''unknown'' | Some v \<Rightarrow> if v = [] then ''unknown'' else v)"

text \<open>The rate limiter: \<open>None\<close> when the request is turned away, else the cache as updated.\<close>

definition rate_limit ::
  "(string \<rightharpoonup> rate_entry) \<Rightarrow> string \<Rightarrow> int \<Rightarrow> (string \<rightharpoonup> rate_entry) option" where
  "rate_limit cache rateLimitKey now =
     (case cache rateLimitKey of
        Some userRateLimit \<Rightarrow>
          if now - timestamp userRateLimit < RATE_LIMIT_WINDOW then
            if count userRateLimit \<ge> MAX_REQUESTS then None
            else Some (cache(rateLimitKey \<mapsto>
                   \<lparr>count = count userRateLimit + 1, timestamp = timestamp userRateLimit\<rparr>))
          else Some (cache(rateLimitKey \<mapsto> \<lparr>count = 1, timestamp = now\<rparr>))
      | None \<Rightarrow> Some (cache(rateLimitKey \<mapsto> \<lparr>count = 1, timestamp = now\<rparr>)))"

text \<open>\<open>Math.floor(100000 + Math.random() * 900000).toString()\<close>.\<close>

definition generate_otp :: "env \<Rightarrow> string" where
  "generate_otp e = show_nat (100000 + random e 0 mod 900000)"

text \<open>\<open>OTP.updateOne({phone}, {$set: ...}, {upsert: true})\<close>.\<close>

definition upsert_otp :: "string \<Rightarrow> json \<Rightarrow> string \<Rightarrow> int \<Rightarrow> otp_record list \<Rightarrow> otp_record list" where
  "upsert_otp p cc code t docs =
     (if list_ex (\<lambda>d. phone d = p) docs
      then updateOne (\<lambda>d. phone d = p) (\<lambda>d. d\<lparr>countryCode := cc, otp := code, createdAt := t\<rparr>) docs
      else docs @ [\<lparr>phone = p, countryCode = cc, otp = code, createdAt = t\<rparr>])"

definition sent_response :: "env \<Rightarrow> string \<Rightarrow> response" where
  "sent_response e code =
     json_response 200
       ([(''success'', JBool True),
         (''message'', JStr (if dispatch_ok e then ''OTP sent successfully''
            else ''OTP generated successfully. If you don't receive it via WhatsApp, please check your phone number and try again.''))]
        @ (if development e then [(''otp'', JStr code)] else []))"

definition resend_too_soon :: response where
  "resend_too_soon = failure 429 ''Please wait before requesting another OTP''"

definition too_many_requests :: response where
  "too_many_requests = failure 429 ''Too many OTP requests. Please try again later.''"

text \<open>
  The code is generated and stored with the country code of the body (\<open>+91\<close> when the
  body has none), then sent; a failed dispatch changes the message only.
\<close>

definition store_and_send ::
  "env \<Rightarrow> (string \<rightharpoonup> rate_entry) \<Rightarrow> string \<Rightarrow> json option \<Rightarrow> otp_record list
     \<Rightarrow> ((string \<rightharpoonup> rate_entry) \<times> otp_record list) \<times> response" where
  "store_and_send e cache p country docs =
     (case stored_string None
             (Some (case country of None \<Rightarrow> JStr ''+91'' | Some cc \<Rightarrow> cc)) of
        Inr (Some cc) \<Rightarrow>
          ((cache, upsert_otp p cc (generate_otp e) (Date_now e 1) docs),
           sent_response e (generate_otp e))
      | _ \<Rightarrow> ((cache, docs), send_error))"

text \<open>
  Clock reading 0 is \<open>now\<close>, reading 1 the \<open>createdAt\<close> of the stored record.  The state is
  the rate-limit cache of the process and the OTP collection.
\<close>

definition send_otp_POST ::
  "env \<Rightarrow> (string \<rightharpoonup> rate_entry) \<times> otp_record list \<Rightarrow> request
     \<Rightarrow> ((string \<rightharpoonup> rate_entry) \<times> otp_record list) \<times> response" where
  "send_otp_POST e st req =
     (case json_body req of
        Inl msg \<Rightarrow> (st, send_error)
      | Inr JNull \<Rightarrow> (st, send_error)
      | Inr b \<Rightarrow>
     (case get_prop b ''phone'' of
        None \<Rightarrow> (st, failure 400 ''Valid 10-digit phone number is required'')
      | Some ph \<Rightarrow>
     if \<not> truthy ph \<or> \<not> test_digits 10 ph
     then (st, failure 400 ''Valid 10-digit phone number is required'')
     else
     (case rate_limit (fst st)
             (header_or_unknown (x_forwarded_for req) @ '':'' @ toString_js ph) (Date_now e 0) of
        None \<Rightarrow> (st, too_many_requests)
      | Some cache \<Rightarrow>
     (case cast_String ph of
        None \<Rightarrow> ((cache, snd st), send_error)
      | Some p \<Rightarrow>
     (case findOne (\<lambda>d. phone d = p) (snd st) of
        Some existingOtp \<Rightarrow>
          if Date_now e 0 - createdAt existingOtp < 60000
          then ((cache, snd st), resend_too_soon)
          else store_and_send e cache p (get_prop b ''countryCode'') (snd st)
      | None \<Rightarrow> store_and_send e cache p (get_prop b ''countryCode'') (snd st))))))"

definition verify_error :: response where
  "verify_error = failure 500 ''An error occurred while verifying OTP''"

text \<open>
  The record found is removed by its \<open>_id\<close>: it is the first one with the phone and the
  code.  The removal after a match is started without being awaited; the model lets it
  take effect before the next request.
\<close>

definition verify_otp_POST :: "env \<Rightarrow> otp_record list \<Rightarrow> request \<Rightarrow> otp_record list \<times> response" where
  "verify_otp_POST e docs req =
     (case json_body req of
        Inl msg \<Rightarrow> (docs, verify_error)
      | Inr JNull \<Rightarrow> (docs, verify_error)
      | Inr b \<Rightarrow>
     (case (get_prop b ''phone'', get_prop b ''otp'') of
        (Some ph, Some code) \<Rightarrow>
          if \<not> truthy ph \<or> \<not> truthy code
          then (docs, failure 400 ''Phone number and OTP are required'')
          else if \<not> test_digits 10 ph \<or> \<not> test_digits 6 code
          then (docs, failure 400 ''Invalid phone number or OTP format'')
          else
          (case (cast_String ph, cast_String code) of
             (Some p, Some c) \<Rightarrow>
               (case findOne (\<lambda>d. phone d = p \<and> otp d = c) docs of
                  None \<Rightarrow> (docs, failure 400 ''Invalid OTP'')
                | Some otpRecord \<Rightarrow>
                    if Date_now e 0 - createdAt otpRecord > 5 * 60 * 1000
                    then (deleteOne (\<lambda>d. phone d = p \<and> otp d = c) docs,
                          failure 400 ''OTP has expired'')
                    else
                      (deleteOne (\<lambda>d. phone d = p \<and> otp d = c) docs,
                       case verify_otp_SignJWT e of
                         None \<Rightarrow> verify_error
                       | Some sign \<Rightarrow>
                           json_response 200
                             [(''success'', JBool True),
                              (''message'', JStr ''Phone number verified successfully''),
                              (''token'', JStr (sign [(''phone'', ph), (''verified'', JBool True)]
                                                  ''10m''))]))
           | _ \<Rightarrow> (docs, verify_error))
      | _ \<Rightarrow> (docs, failure 400 ''Phone number and OTP are required'')))"

section \<open>Question delivery: \<open>GET /api/exam/questions\<close>\<close>

definition CACHE_DURATION :: int where
  "CACHE_DURATION = 60 * 60 * 1000"

definition MAX_CACHE_ENTRIES :: nat where
  "MAX_CACHE_ENTRIES = 100"

record cache_entry =
  cached_questions :: "json list"
  cached_at :: int                     \<comment> \<open>\<open>timestamp\<close>\<close>

text \<open>
  \<open>QUESTION_CACHE\<close> is a \<open>Map\<close>: its entries in insertion order.  Keys are compared as
  \<open>Map\<close> does: strings, numbers and booleans by value; an array or an object only equals
  itself, and the key of a request is a value no earlier request has seen.
\<close>

fun primitive :: "json \<Rightarrow> bool" where
  "primitive (JArr xs) = False"
| "primitive (JObj kvs) = False"
| "primitive v = True"

definition same_key :: "json \<Rightarrow> json \<Rightarrow> bool" where
  "same_key k k' = (primitive k \<and> k = k')"

definition Map_get :: "(json \<times> 'v) list \<Rightarrow> json \<Rightarrow> 'v option" where
  "Map_get m k = map_option snd (find (\<lambda>kv. same_key k (fst kv)) m)"

text \<open>\<open>Map.set\<close>: the value of a key already present is replaced where it stands, a new key goes last.\<close>

fun Map_set :: "(json \<times> 'v) list \<Rightarrow> json \<Rightarrow> 'v \<Rightarrow> (json \<times> 'v) list" where
  "Map_set [] k v = [(k, v)]"
| "Map_set (kv # m) k v = (if same_key k (fst kv) then (fst kv, v) # m else kv # Map_set m k v)"

text \<open>\<open>if (size > MAX_CACHE_ENTRIES) delete(keys().next().value)\<close>: the oldest entry goes.\<close>

definition evict :: "(json \<times> 'v) list \<Rightarrow> (json \<times> 'v) list" where
  "evict m = (if length m > MAX_CACHE_ENTRIES then tl m else m)"

text \<open>
  The Fisher-Yates loop, \<open>i\<close> running down to 1; \<open>Math.floor(Math.random() * (i + 1))\<close> is
  the draw for \<open>i\<close> reduced to \<open>0..i\<close>.
\<close>

fun shuffle_loop :: "(nat \<Rightarrow> nat) \<Rightarrow> nat \<Rightarrow> 'a list \<Rightarrow> 'a list" where
  "shuffle_loop rnd 0 shuffled = shuffled"
| "shuffle_loop rnd (Suc k) shuffled =
     shuffle_loop rnd k
       (shuffled[Suc k := shuffled ! (rnd (Suc k) mod (Suc k + 1)),
                 rnd (Suc k) mod (Suc k + 1) := shuffled ! Suc k])"

definition shuffleArray :: "(nat \<Rightarrow> nat) \<Rightarrow> 'a list \<Rightarrow> 'a list" where
  "shuffleArray rnd array = shuffle_loop rnd (length array - 1) array"

text \<open>The object built for the client from a stored question.\<close>

definition safe_question :: "question \<Rightarrow> json" where
  "safe_question q =
     JObj [(''id'', JStr (questionId q)),
           (''question'', JStr (question q)),
           (''options'', JArr (map JStr (options q)))]"

definition questions_response :: "json \<Rightarrow> json list \<Rightarrow> (string \<times> json) list \<Rightarrow> response" where
  "questions_response fid qs metadata =
     json_response 200
       [(''success'', JBool True), (''formId'', fid), (''questions'', JArr qs),
        (''metadata'', JObj ((''totalQuestions'', JNum (int (length qs))) # metadata))]"

definition resolve_formId :: "request \<Rightarrow> (string \<times> json) list \<Rightarrow> json option" where
  "resolve_formId req payload =
     or_else (map_option JStr (formId_param req)) (map_of payload ''formId'')"

text \<open>The cache miss: query, sanitise, shuffle once, store, evict, answer.\<close>

definition fetch_questions ::
  "env \<Rightarrow> form list \<Rightarrow> (json \<times> cache_entry) list \<Rightarrow> json
     \<Rightarrow> (json \<times> cache_entry) list \<times> response" where
  "fetch_questions e fs cache fid =
     (case findForm fs (Some fid) of
        Inl err \<Rightarrow> (cache, failure 500 ''An error occurred while fetching questions'')
      | Inr None \<Rightarrow> (cache, failure 404 ''Form not found'')
      | Inr (Some frm) \<Rightarrow>
          (evict (Map_set cache fid
                    \<lparr>cached_questions =
                       shuffleArray (random e) (map safe_question (questions frm)),
                     cached_at = Date_now e 2\<rparr>),
           questions_response fid
             (shuffleArray (random e) (map safe_question (questions frm)))
             [(''fetchTime'', JNum (Date_now e 3 - Date_now e 0)),
              (''cacheHit'', JBool False)]))"

text \<open>
  Clock readings: 0 the start of the request, 1 the cache check, 2 the time stamp of a
  new entry, 3 the end of the request.
\<close>

definition questions_GET ::
  "env \<Rightarrow> form list \<Rightarrow> (json \<times> cache_entry) list \<Rightarrow> request
     \<Rightarrow> (json \<times> cache_entry) list \<times> response" where
  "questions_GET e fs cache req =
     (case session_token req of
        None \<Rightarrow> (cache, failure 401 ''Unauthorized access'')
      | Some sessionToken \<Rightarrow>
     if sessionToken = [] then (cache, failure 401 ''Unauthorized access'')
     else
     (case jwtVerify e sessionToken of
        None \<Rightarrow> (cache, failure 401 ''Invalid or expired session'')
      | Some payload \<Rightarrow>
     (case resolve_formId req payload of
        None \<Rightarrow> (cache, failure 400 ''Form ID is required'')
      | Some fid \<Rightarrow>
     if \<not> truthy fid then (cache, failure 400 ''Form ID is required'')
     else
     (case Map_get cache fid of
        Some cachedEntry \<Rightarrow>
          if Date_now e 1 - cached_at cachedEntry < CACHE_DURATION
          then (cache, questions_response fid (cached_questions cachedEntry)
                         [(''cacheHit'', JBool True)])
          else fetch_questions e fs cache fid
      | None \<Rightarrow> fetch_questions e fs cache fid))))"

section \<open>The server\<close>

text \<open>
  The state the five handlers share: the three collections of the record store and the
  two caches of the process.
\<close>

record server_state =
  students :: "student list"
  otps :: "otp_record list"
  forms :: "form list"
  rateLimitCache :: "string \<rightharpoonup> rate_entry"
  QUESTION_CACHE :: "(json \<times> cache_entry) list"

datatype endpoint = Send_otp | Verify_otp | Verify_roll | Questions | Submit

fun handle :: "env \<Rightarrow> endpoint \<Rightarrow> server_state \<Rightarrow> request \<Rightarrow> server_state \<times> response" where
  "handle e Send_otp st req =
     (case send_otp_POST e (rateLimitCache st, otps st) req of
        ((cache, docs), r) \<Rightarrow> (st\<lparr>rateLimitCache := cache, otps := docs\<rparr>, r))"
| "handle e Verify_otp st req =
     (case verify_otp_POST e (otps st) req of (docs, r) \<Rightarrow> (st\<lparr>otps := docs\<rparr>, r))"
| "handle e Verify_roll st req =
     (case verify_roll_POST e (students st) req of (studs, r) \<Rightarrow> (st\<lparr>students := studs\<rparr>, r))"
| "handle e Questions st req =
     (case questions_GET e (forms st) (QUESTION_CACHE st) req of
        (cache, r) \<Rightarrow> (st\<lparr>QUESTION_CACHE := cache\<rparr>, r))"
| "handle e Submit st req =
     (case submit_POST e (forms st) (students st) req of (studs, r) \<Rightarrow> (st\<lparr>students := studs\<rparr>, r))"

text \<open>A sequence of requests, each with its own environment, served one after the other.\<close>

fun run :: "server_state \<Rightarrow> (env \<times> endpoint \<times> request) list \<Rightarrow> server_state" where
  "run st [] = st"
| "run st ((e, ep, req) # rest) = run (fst (handle e ep st req)) rest"

text \<open>The states of a process that started with empty caches, over any store.\<close>

inductive reachable :: "server_state \<Rightarrow> bool" where
  start: "QUESTION_CACHE st = [] \<Longrightarrow> rateLimitCache st = Map.empty \<Longrightarrow> reachable st"
| serve: "reachable st \<Longrightarrow> reachable (fst (handle e ep st req))"

section \<open>Notions the properties are stated with\<close>

text \<open>A property name occurs somewhere inside a JSON value.\<close>

fun mentions :: "string \<Rightarrow> json \<Rightarrow> bool"
  and mentions_list :: "string \<Rightarrow> json list \<Rightarrow> bool"
  and mentions_props :: "string \<Rightarrow> (string \<times> json) list \<Rightarrow> bool" where
  "mentions k JNull = False"
| "mentions k (JBool b) = False"
| "mentions k (JNum n) = False"
| "mentions k (JStr s) = False"
| "mentions k (JArr xs) = mentions_list k xs"
| "mentions k (JObj kvs) = mentions_props k kvs"
| "mentions_list k [] = False"
| "mentions_list k (x # xs) = (mentions k x \<or> mentions_list k xs)"
| "mentions_props k [] = False"
| "mentions_props k (kv # kvs) = (fst kv = k \<or> mentions k (snd kv) \<or> mentions_props k kvs)"

text \<open>The names of the properties of an object, in order.\<close>

fun field_names :: "json \<Rightarrow> string list" where
  "field_names (JObj kvs) = map fst kvs"
| "field_names v = []"

definition client_question :: "json \<Rightarrow> bool" where
  "client_question q = (field_names q = [''id'', ''question'', ''options''])"


text \<open>
  What holds of the question cache in every state of the process: it stays within its
  capacity, and every question in it is an object of exactly the three client fields
  that mentions no \<open>correctAnswer\<close>.
\<close>

definition clean_questions :: "json list \<Rightarrow> bool" where
  "clean_questions qs = (\<forall>q \<in> set qs. client_question q \<and> \<not> mentions ''correctAnswer'' q)"

definition cache_ok :: "(json \<times> cache_entry) list \<Rightarrow> bool" where
  "cache_ok cache =
     (length cache \<le> MAX_CACHE_ENTRIES
      \<and> (\<forall>entry \<in> snd ` set cache. clean_questions (cached_questions entry)))"

text \<open>
  The two kinds of answer the question endpoint gives: a failure, or the question
  response for a form id that is a string, number or boolean, with clean questions.
\<close>

definition served :: "response \<Rightarrow> bool" where
  "served r =
     ((\<exists>st msg. r = failure st msg \<and> st \<noteq> 200)
      \<or> (\<exists>fid qs md. r = questions_response fid qs md \<and> primitive fid \<and> clean_questions qs
            \<and> \<not> mentions_props ''correctAnswer'' md))"


text \<open>The answer to a verified code.\<close>

definition otp_verified :: "string \<Rightarrow> response" where
  "otp_verified tok =
     json_response 200
       [(''success'', JBool True), (''message'', JStr ''Phone number verified successfully''),
        (''token'', JStr tok)]"

text \<open>The key of the rate limiter for a request and a phone: \<open>`${ip}:${phone}`\<close>.\<close>

definition rate_key :: "request \<Rightarrow> string \<Rightarrow> string" where
  "rate_key req p = header_or_unknown (x_forwarded_for req) @ '':'' @ p"

text \<open>
  Between two lists of students: the same documents in the same places, and whoever had
  attempted still has.
\<close>

definition latch_kept :: "student list \<Rightarrow> student list \<Rightarrow> bool" where
  "latch_kept studs studs' =
     list_all2 (\<lambda>d d'. student_id d' = student_id d \<and> (attempted d' \<or> \<not> attempted d)) studs studs'"

section \<open>A small instance\<close>

text \<open>
  One form of two questions, one student of course 101, and an environment in which
  two tokens verify: the phone token of the OTP step and the session token of the roll
  step.  The properties below are run on it.
\<close>

definition demo_form :: form where
  "demo_form =
     \<lparr>formId = ''101'',
      questions =
        [\<lparr>questionId = ''q1'', question = ''First?'', options = [''a'', ''b'', ''c''],
          correctAnswer = [2]\<rparr>,
         \<lparr>questionId = ''q2'', question = ''Second?'', options = [''a'', ''b'', ''c''],
          correctAnswer = [1, 3]\<rparr>]\<rparr>"

definition demo_student :: student where
  "demo_student =
     \<lparr>student_id = ''s1'', Student_Name = Some (JStr ''Asha''), Student_RollNo = ''R001'',
      Branch = Some (JStr ''CSE''), College_Name = Some (JStr ''GCE''),
      University_Name = Some (JStr ''AU''), Course_ID = Some (JNum 101),
      Student_Phone = None, marks = None, answers = JObj [], attempted = False,
      sessionData = \<lparr>isActive = False, startTime = None, deviceId = None, expiresAt = None\<rparr>\<rparr>"

definition demo_phone_claims :: "(string \<times> json) list" where
  "demo_phone_claims = [(''phone'', JStr ''9876543210''), (''verified'', JBool True)]"

text \<open>
  What the instance takes for \<open>trim\<close>: blanks are stripped from both ends, as \<open>trim\<close> does
  on the strings of the instance.  Its local time is universal time.
\<close>

definition demo_trim :: "string \<Rightarrow> string" where
  "demo_trim s = rev (dropWhile (\<lambda>c. c = CHR '' '') (rev (dropWhile (\<lambda>c. c = CHR '' '') s)))"

definition demo_env :: env where
  "demo_env =
     \<lparr>jwtVerify = (\<lambda>t. if t = ''session'' then Some
                           [(''studentId'', JStr ''s1''), (''rollNumber'', JStr ''R001''),
                            (''phone'', JStr ''9876543210''), (''name'', JStr ''Asha''),
                            (''sessionStart'', JStr ''7000''), (''sessionExpires'', JStr ''18007000''),
                            (''courseId'', JNum 101)]
                         else if t = ''phone'' then Some demo_phone_claims else None),
      SignJWT = (\<lambda>claims lifetime. ''session''),
      verify_otp_SignJWT = Some (\<lambda>claims lifetime. ''phone''),
      Date_now = (\<lambda>k. 7000),
      random = (\<lambda>i. 0),
      dispatch_ok = True,
      toISOString = show_int,
      development = False,
      String_trim = demo_trim,
      LocalTZA = (\<lambda>t isUTC. 0)\<rparr>"

definition demo_request :: request where
  "demo_request =
     \<lparr>session_token = Some ''session'', x_forwarded_for = Some ''10.0.0.1'',
      user_agent = Some ''Mozilla/5.0'', formId_param = None,
      json_body = Inr (JObj [])\<rparr>"



definition demo_roll_request :: request where
  "demo_roll_request =
     demo_request\<lparr>json_body :=
       Inr (JObj [(''rollNumber'', JStr '' R001 ''), (''token'', JStr ''phone'')])\<rparr>"

definition demo_questions_request :: request where
  "demo_questions_request = demo_request\<lparr>formId_param := Some ''101''\<rparr>"

text \<open>The same environment later, with another random source.\<close>

definition demo_env_later :: env where
  "demo_env_later = demo_env\<lparr>Date_now := (\<lambda>k. 8000), random := (\<lambda>i. 1)\<rparr>"

definition demo_cache :: "(json \<times> cache_entry) list" where
  "demo_cache =
     [(JStr ''101'',
       \<lparr>cached_questions =
           [safe_question (questions demo_form ! 1), safe_question (questions demo_form ! 0)],
         cached_at = 7000\<rparr>)]"

definition demo_otp_record :: otp_record where
  "demo_otp_record =
     \<lparr>phone = ''9876543210'', countryCode = JStr ''+91'', otp = ''123456'', createdAt = 6000\<rparr>"

definition demo_verify_request :: request where
  "demo_verify_request =
     demo_request\<lparr>json_body :=
       Inr (JObj [(''phone'', JStr ''9876543210''), (''otp'', JStr ''123456'')])\<rparr>"

definition demo_send_request :: request where
  "demo_send_request =
     demo_request\<lparr>json_body := Inr (JObj [(''phone'', JStr ''9876543210'')])\<rparr>"

definition demo_env_at :: "int \<Rightarrow> env" where
  "demo_env_at t = demo_env\<lparr>Date_now := (\<lambda>k. t)\<rparr>"

definition demo_state :: server_state where
  "demo_state =
     \<lparr>students = [demo_student], otps = [], forms = [demo_form],
      rateLimitCache = Map.empty, QUESTION_CACHE = []\<rparr>"

text \<open>
  The state after \<open>n\<close> codes were sent to the phone from the address, the first at time 0
  and the last at time \<open>t\<close>.
\<close>

definition demo_sent :: "nat \<Rightarrow> int \<Rightarrow> server_state" where
  "demo_sent n t =
     demo_state
       \<lparr>otps := [\<lparr>phone = ''9876543210'', countryCode = JStr ''+91'', otp = ''100000'',
                  createdAt = t\<rparr>],
        rateLimitCache := [''10.0.0.1:9876543210'' \<mapsto> \<lparr>count = n, timestamp = 0\<rparr>]\<rparr>"

section \<open>Properties of scoring\<close>

lemmas order_defs =
  own_property_order_def is_array_index_def is_digit_def digit_chars_def
  nat_of_digits_def digit_val_def

lemma includes_js_iff:
  "includes_js ns v = (\<exists>n. v = Some (JNum n) \<and> n \<in> set ns)"
  by (cases "(ns, v)" rule: includes_js.cases) auto

lemma calculateMarks_loop_count:
  "calculateMarks_loop qs answerarr i mark =
     mark + int (length (filter (\<lambda>j. includes_js (correctAnswer (qs ! j)) (index answerarr j))
                     [i ..< length qs]))"
proof (induction qs answerarr i mark rule: calculateMarks_loop.induct)
  case (1 qs answerarr i mark)
  show ?case
  proof (cases "i < length qs")
    case True
    then have "[i ..< length qs] = i # [i + 1 ..< length qs]"
      by (simp add: upt_conv_Cons)
    with True 1 show ?thesis
      by (simp add: calculateMarks_loop.simps [of qs answerarr i mark])
  next
    case False
    then show ?thesis
      by (simp add: calculateMarks_loop.simps [of qs answerarr i mark])
  qed
qed

lemma filter_upt_card:
  "length (filter P [0 ..< n]) = card {i. i < n \<and> P i}"
proof -
  have "length (filter P [0 ..< n]) = card {i. i < length [0 ..< n] \<and> P ([0 ..< n] ! i)}"
    by (rule length_filter_conv_card)
  also have "{i. i < length [0 ..< n] \<and> P ([0 ..< n] ! i)} = {i. i < n \<and> P i}"
    by auto
  finally show ?thesis .
qed

lemma calculateMarks_loop_card:
  "calculateMarks_loop qs answerarr 0 0 =
     int (card {i. i < length qs \<and>
                   (\<exists>n. index answerarr i = Some (JNum n) \<and> n \<in> set (correctAnswer (qs ! i)))})"
  by (simp add: calculateMarks_loop_count filter_upt_card includes_js_iff)

lemma calculateMarks_loop_bounds:
  "0 \<le> calculateMarks_loop qs answerarr 0 0
   \<and> calculateMarks_loop qs answerarr 0 0 \<le> int (length qs)"
proof -
  have "length (filter (\<lambda>j. includes_js (correctAnswer (qs ! j)) (index answerarr j))
          [0 ..< length qs]) \<le> length [0 ..< length qs]"
    by (rule length_filter_le)
  then show ?thesis
    by (simp add: calculateMarks_loop_count)
qed

text \<open>
  C1. The score of a submitted answers object is the number of positions \<open>i\<close> below the
  number of qs at which the \<open>i\<close>-th submitted value (the \<open>i\<close>-th entry of
  \<open>Object.values\<close> of the answers, an index into the values and not a question id) is a
  number contained in the \<open>i\<close>-th question's \<open>correctAnswer\<close>.  For qs with correct
  answers \<open>[2]\<close> and \<open>[1,3]\<close>, the answers \<open>{0:2, 1:3}\<close> score 2 and \<open>{0:1, 1:2}\<close> score 0.
\<close>

theorem calculateMarks_positional:
  "calculateMarks qs (JObj kvs) =
     Inr (int (card {i. i < length qs \<and>
                 (\<exists>n. index (map snd (own_property_order kvs)) i = Some (JNum n)
                      \<and> n \<in> set (correctAnswer (qs ! i)))}))
   \<and> calculateMarks [q\<lparr>correctAnswer := [2]\<rparr>, q'\<lparr>correctAnswer := [1, 3]\<rparr>]
         (JObj [(''0'', JNum 2), (''1'', JNum 3)]) = Inr 2
   \<and> calculateMarks [q\<lparr>correctAnswer := [2]\<rparr>, q'\<lparr>correctAnswer := [1, 3]\<rparr>]
         (JObj [(''0'', JNum 1), (''1'', JNum 2)]) = Inr 0"
proof (intro conjI)
  show "calculateMarks qs (JObj kvs) =
     Inr (int (card {i. i < length qs \<and>
                 (\<exists>n. index (map snd (own_property_order kvs)) i = Some (JNum n)
                      \<and> n \<in> set (correctAnswer (qs ! i)))}))"
    by (simp add: calculateMarks_def calculateMarks_loop_card)
  show "calculateMarks [q\<lparr>correctAnswer := [2]\<rparr>, q'\<lparr>correctAnswer := [1, 3]\<rparr>]
         (JObj [(''0'', JNum 2), (''1'', JNum 3)]) = Inr 2"
    by (simp add: calculateMarks_def order_defs calculateMarks_loop.simps index_def)
  show "calculateMarks [q\<lparr>correctAnswer := [2]\<rparr>, q'\<lparr>correctAnswer := [1, 3]\<rparr>]
         (JObj [(''0'', JNum 1), (''1'', JNum 2)]) = Inr 0"
    by (simp add: calculateMarks_def order_defs calculateMarks_loop.simps index_def)
qed

text \<open>
  The position is the one among the submitted values, not the key: answers keyed from 1
  score as the same values keyed from 0 do, and a key that is no array index comes after
  all that are.
\<close>

lemma calculateMarks_by_value_position:
  "calculateMarks [q\<lparr>correctAnswer := [2]\<rparr>, q'\<lparr>correctAnswer := [1, 3]\<rparr>]
         (JObj [(''2'', JNum 3), (''1'', JNum 2)]) = Inr 2"
  "calculateMarks [q\<lparr>correctAnswer := [2]\<rparr>, q'\<lparr>correctAnswer := [1, 3]\<rparr>]
         (JObj [(''x'', JNum 2), (''0'', JNum 3)]) = Inr 0"
  by (simp_all add: calculateMarks_def order_defs calculateMarks_loop.simps index_def)

text \<open>
  C10. On every question list and every answers value that is not \<open>null\<close> (the handler
  rejects a falsy \<open>answers\<close> before scoring), whatever its shape, \<open>calculateMarks\<close> returns
  a mark, and the mark lies between 0 and the number of qs.
\<close>

theorem calculateMarks_total_bounded:
  "userAnswers \<noteq> JNull \<Longrightarrow>
     \<exists>mark. calculateMarks qs userAnswers = Inr mark
       \<and> 0 \<le> mark \<and> mark \<le> int (length qs)"
  using calculateMarks_loop_bounds
  by (cases userAnswers) (simp_all add: calculateMarks_def)

theorem calculateMarks_total_bounded_witness:
  "JObj [(''0'', JNull), (''7'', JNum 1), (''extra'', JStr ''x'')] \<noteq> JNull
   \<and> (\<exists>mark. calculateMarks
         [\<lparr>questionId = ''q1'', question = ''A?'', options = [''a'', ''b''], correctAnswer = [2]\<rparr>,
          \<lparr>questionId = ''q2'', question = ''B?'', options = [''a'', ''b''], correctAnswer = [1, 3]\<rparr>,
          \<lparr>questionId = ''q3'', question = ''C?'', options = [''a'', ''b''], correctAnswer = [1]\<rparr>]
         (JObj [(''0'', JNull), (''7'', JNum 1), (''extra'', JStr ''x'')]) = Inr mark
       \<and> 0 \<le> mark \<and> mark \<le> 3)"
  using calculateMarks_total_bounded
    [of "JObj [(''0'', JNull), (''7'', JNum 1), (''extra'', JStr ''x'')]"
        "[\<lparr>questionId = ''q1'', question = ''A?'', options = [''a'', ''b''], correctAnswer = [2]\<rparr>,
          \<lparr>questionId = ''q2'', question = ''B?'', options = [''a'', ''b''], correctAnswer = [1, 3]\<rparr>,
          \<lparr>questionId = ''q3'', question = ''C?'', options = [''a'', ''b''], correctAnswer = [1]\<rparr>]"]
  by simp

section \<open>Properties of submission\<close>

lemma show_nat_digit: "n < 10 \<Longrightarrow> show_nat n = [digit_chars ! n]"
  by (simp add: show_nat.simps [of n])

lemma show_nat_more: "10 \<le> n \<Longrightarrow> show_nat n = show_nat (n div 10) @ [digit_chars ! (n mod 10)]"
  by (simp add: show_nat.simps [of n])

lemmas show_simps = show_nat_digit show_nat_more show_int_def digit_chars_def

lemma calculateMarks_returns:
  "userAnswers \<noteq> JNull \<Longrightarrow> \<exists>mark. calculateMarks qs userAnswers = Inr mark"
  by (cases userAnswers) (simp_all add: calculateMarks_def)

lemma findOne_holds: "findOne P docs = Some d \<Longrightarrow> P d"
  by (induction docs) (auto simp: findOne_def split: if_splits)

lemma findOne_updateOne:
  "findOne P docs = Some d \<Longrightarrow> P (f d) \<Longrightarrow> findOne P (updateOne P f docs) = Some (f d)"
  by (induction docs) (auto simp: findOne_def split: if_splits)

lemma submit_POST_accepts:
  assumes tok: "session_token req = Some tok" "tok \<noteq> []" "jwtVerify e tok = Some payload"
    and ans: "json_body req = Inr b" "get_prop b ''answers'' = Some a" "truthy a"
    and stud: "findById studs (map_of payload ''studentId'') = Some stud" "\<not> attempted stud"
    and frm: "findForm fs (optional_toString (map_of payload ''courseId'')) = Inr (Some frm)"
    and m: "calculateMarks (questions frm) a = Inr m"
  shows "submit_POST e fs studs req =
           (updateOne (\<lambda>d. student_id d = student_id stud) (record_submission m a) studs,
            json_response 200
              [(''success'', JBool True), (''message'', JStr ''Exam submitted successfully''),
               (''totalQuestions'', JNum (int (length (questions frm))))])"
proof -
  from ans have "b \<noteq> JNull" by auto
  then show ?thesis
    using assms by (cases b) (simp_all add: submit_POST_def)
qed

lemma submit_POST_rejects:
  assumes tok: "session_token req = Some tok" "tok \<noteq> []" "jwtVerify e tok = Some payload"
    and ans: "json_body req = Inr b" "get_prop b ''answers'' = Some a" "truthy a"
    and stud: "findById studs (map_of payload ''studentId'') = Some stud" "attempted stud"
  shows "submit_POST e fs studs req = (studs, already_attempted)"
proof -
  from ans have "b \<noteq> JNull" by auto
  then show ?thesis
    using assms by (cases b) (simp_all add: submit_POST_def)
qed

text \<open>
  C2. Two submissions with valid session credentials of the same student, each carrying
  answers, on a student who has not attempted and whose course has a form: the first
  is answered 200 and leaves the student with \<open>attempted\<close> set, the session inactive and
  the computed marks; the second is answered 400 with code \<open>ALREADY_ATTEMPTED\<close> and
  leaves the store, and so the marks, as the first call left it.
\<close>

theorem submit_exactly_once:
  assumes cred1: "session_token req = Some tok" "tok \<noteq> []"
      "jwtVerify e tok = Some payload" "map_of payload ''studentId'' = Some (JStr sid)"
    and cred2: "session_token req' = Some tok'" "tok' \<noteq> []"
      "jwtVerify e' tok' = Some payload'" "map_of payload' ''studentId'' = Some (JStr sid)"
    and ans1: "json_body req = Inr b" "get_prop b ''answers'' = Some a" "truthy a"
    and ans2: "json_body req' = Inr b'" "get_prop b' ''answers'' = Some a'" "truthy a'"
    and stud: "findById studs (Some (JStr sid)) = Some stud" "\<not> attempted stud"
    and frm: "findForm fs (optional_toString (map_of payload ''courseId'')) = Inr (Some frm)"
  shows "\<exists>studs' r1 m stud'.
           submit_POST e fs studs req = (studs', r1)
         \<and> status r1 = 200 \<and> get_prop (body r1) ''success'' = Some (JBool True)
         \<and> calculateMarks (questions frm) a = Inr m
         \<and> findById studs' (Some (JStr sid)) = Some stud'
         \<and> attempted stud' \<and> \<not> isActive (sessionData stud') \<and> marks stud' = Some m
         \<and> submit_POST e' fs' studs' req' = (studs', already_attempted)
         \<and> status already_attempted = 400
         \<and> get_prop (body already_attempted) ''code'' = Some (JStr ''ALREADY_ATTEMPTED'')"
proof -
  from ans1 have "a \<noteq> JNull" by auto
  then obtain m where m: "calculateMarks (questions frm) a = Inr m"
    using calculateMarks_returns by blast
  define studs' where
    "studs' = updateOne (\<lambda>d. student_id d = student_id stud) (record_submission m a) studs"
  from stud have sid: "student_id stud = sid"
    by (auto dest: findOne_holds)
  have first: "submit_POST e fs studs req =
      (studs', json_response 200
         [(''success'', JBool True), (''message'', JStr ''Exam submitted successfully''),
          (''totalQuestions'', JNum (int (length (questions frm))))])"
    unfolding studs'_def
  proof (rule submit_POST_accepts [OF cred1(1-3) ans1 _ stud(2) frm m])
    show "findById studs (map_of payload ''studentId'') = Some stud"
      using stud(1) cred1(4) by simp
  qed
  have found: "findById studs' (Some (JStr sid)) = Some (record_submission m a stud)"
    using stud sid unfolding studs'_def
    by (simp add: findOne_updateOne record_submission_def)
  have second: "submit_POST e' fs' studs' req' = (studs', already_attempted)"
  proof (rule submit_POST_rejects [OF cred2(1-3) ans2])
    show "findById studs' (map_of payload' ''studentId'') = Some (record_submission m a stud)"
      using found cred2(4) by simp
    show "attempted (record_submission m a stud)"
      by (simp add: record_submission_def)
  qed
  show ?thesis
    using first m found second
    by (simp add: record_submission_def json_response_def already_attempted_def)
qed


lemmas demo_defs = demo_form_def demo_student_def demo_env_def demo_request_def demo_phone_claims_def

theorem submit_exactly_once_witness:
  "findById [demo_student] (Some (JStr ''s1'')) = Some demo_student
   \<and> \<not> attempted demo_student
   \<and> (\<exists>studs' r1 m stud'.
         submit_POST demo_env [demo_form] [demo_student]
           (demo_request\<lparr>json_body := Inr (JObj [(''answers'', JObj [(''0'', JNum 2), (''1'', JNum 3)])])\<rparr>)
           = (studs', r1)
       \<and> status r1 = 200 \<and> get_prop (body r1) ''success'' = Some (JBool True)
       \<and> calculateMarks (questions demo_form) (JObj [(''0'', JNum 2), (''1'', JNum 3)]) = Inr m
       \<and> findById studs' (Some (JStr ''s1'')) = Some stud'
       \<and> attempted stud' \<and> \<not> isActive (sessionData stud') \<and> marks stud' = Some m
       \<and> submit_POST demo_env [] studs'
           (demo_request\<lparr>json_body := Inr (JObj [(''answers'', JObj [(''0'', JNum 1)])])\<rparr>)
           = (studs', already_attempted)
       \<and> status already_attempted = 400
       \<and> get_prop (body already_attempted) ''code'' = Some (JStr ''ALREADY_ATTEMPTED''))"
proof -
  have "\<exists>studs' r1 m stud'.
         submit_POST demo_env [demo_form] [demo_student]
           (demo_request\<lparr>json_body := Inr (JObj [(''answers'', JObj [(''0'', JNum 2), (''1'', JNum 3)])])\<rparr>)
           = (studs', r1)
       \<and> status r1 = 200 \<and> get_prop (body r1) ''success'' = Some (JBool True)
       \<and> calculateMarks (questions demo_form) (JObj [(''0'', JNum 2), (''1'', JNum 3)]) = Inr m
       \<and> findById studs' (Some (JStr ''s1'')) = Some stud'
       \<and> attempted stud' \<and> \<not> isActive (sessionData stud') \<and> marks stud' = Some m
       \<and> submit_POST demo_env [] studs'
           (demo_request\<lparr>json_body := Inr (JObj [(''answers'', JObj [(''0'', JNum 1)])])\<rparr>)
           = (studs', already_attempted)
       \<and> status already_attempted = 400
       \<and> get_prop (body already_attempted) ''code'' = Some (JStr ''ALREADY_ATTEMPTED'')"
    by (rule submit_exactly_once
          [where tok = "''session''" and tok' = "''session''" and sid = "''s1''"
             and payload = "the (jwtVerify demo_env ''session'')"
             and payload' = "the (jwtVerify demo_env ''session'')"
             and b = "JObj [(''answers'', JObj [(''0'', JNum 2), (''1'', JNum 3)])]"
             and b' = "JObj [(''answers'', JObj [(''0'', JNum 1)])]"
             and a = "JObj [(''0'', JNum 2), (''1'', JNum 3)]"
             and a' = "JObj [(''0'', JNum 1)]"
             and stud = demo_student and frm = demo_form])
       (simp_all add: demo_defs findOne_def show_simps)
  then show ?thesis
    by (simp add: demo_defs findOne_def)
qed

section \<open>The attempt latch\<close>

lemma latch_kept_refl: "latch_kept studs studs"
  by (simp add: latch_kept_def list_all2_same)

lemma latch_kept_trans:
  "latch_kept xs ys \<Longrightarrow> latch_kept ys zs \<Longrightarrow> latch_kept xs zs"
  unfolding latch_kept_def list_all2_conv_all_nth
  by (metis (no_types, lifting))

lemma latch_kept_updateOne:
  assumes "\<And>d. student_id (f d) = student_id d" "\<And>d. attempted d \<Longrightarrow> attempted (f d)"
  shows "latch_kept studs (updateOne P f studs)"
proof (induction studs)
  case Nil
  show ?case by (simp add: latch_kept_def)
next
  case (Cons d studs)
  have "list_all2 (\<lambda>d d'. student_id d' = student_id d \<and> (attempted d' \<or> \<not> attempted d)) studs studs"
    by (simp add: list_all2_same)
  with Cons assms show ?case
    by (auto simp: latch_kept_def)
qed

lemma latch_kept_record_submission:
  "latch_kept studs (updateOne P (record_submission m a) studs)"
  by (rule latch_kept_updateOne) (simp_all add: record_submission_def)

lemma latch_kept_claim_session:
  "latch_kept studs (updateOne P (claim_session ph sd) studs)"
  by (rule latch_kept_updateOne) (simp_all add: claim_session_def)

lemma submit_POST_latch: "latch_kept studs (fst (submit_POST e fs studs req))"
  by (simp add: submit_POST_def latch_kept_refl latch_kept_record_submission
        split: option.split sum.split json.split)

lemma verify_roll_POST_latch: "latch_kept studs (fst (verify_roll_POST e studs req))"
  by (simp add: verify_roll_POST_def latch_kept_refl latch_kept_claim_session
        split: option.split sum.split json.split)

lemma handle_latch: "latch_kept (students st) (students (fst (handle e ep st req)))"
proof (cases ep)
  case Submit
  then show ?thesis
    using submit_POST_latch [of "students st" e "forms st" req]
    by (cases "submit_POST e (forms st) (students st) req") simp
next
  case Verify_roll
  then show ?thesis
    using verify_roll_POST_latch [of "students st" e req]
    by (cases "verify_roll_POST e (students st) req") simp
qed (simp_all add: latch_kept_refl split: prod.split)

lemma run_latch: "latch_kept (students st) (students (run st evs))"
proof (induction evs arbitrary: st)
  case Nil
  show ?case by (simp add: latch_kept_refl)
next
  case (Cons ev evs)
  obtain e ep req where ev: "ev = (e, ep, req)"
    by (cases ev)
  show ?case
    using handle_latch [of st e ep req] Cons [of "fst (handle e ep st req)"]
    by (auto simp: ev intro: latch_kept_trans)
qed

text \<open>Only the submission writes the field at all: the other four endpoints leave it as it is.\<close>

lemma attempted_claim_session:
  "map attempted (updateOne P (claim_session ph sd) studs) = map attempted studs"
  by (induction studs) (simp_all add: claim_session_def)

lemma verify_roll_POST_attempted:
  "map attempted (fst (verify_roll_POST e studs req)) = map attempted studs"
  by (simp add: verify_roll_POST_def attempted_claim_session
        split: option.split sum.split json.split)

lemma handle_attempted_unchanged:
  assumes "ep \<noteq> Submit"
  shows "map attempted (students (fst (handle e ep st req))) = map attempted (students st)"
proof (cases ep)
  case Verify_roll
  then show ?thesis
    using verify_roll_POST_attempted [of e "students st" req]
    by (cases "verify_roll_POST e (students st) req") simp
qed (use assms in \<open>simp_all split: prod.split\<close>)

text \<open>
  C3. Whatever requests the server handles, on any of its five endpoints and in any
  order, a student whose \<open>attempted\<close> field is true keeps it true: the documents stay in
  place and none goes from attempted back to not attempted.
\<close>

theorem attempted_one_way_latch:
  assumes "i < length (students st)" and "attempted (students st ! i)"
  shows "i < length (students (run st evs))
       \<and> student_id (students (run st evs) ! i) = student_id (students st ! i)
       \<and> attempted (students (run st evs) ! i)"
  using run_latch [of st evs] assms
  by (auto simp: latch_kept_def list_all2_conv_all_nth)

theorem attempted_one_way_latch_witness:
  "0 < length (students (demo_state\<lparr>students := [demo_student\<lparr>attempted := True\<rparr>]\<rparr>))
   \<and> attempted (students (demo_state\<lparr>students := [demo_student\<lparr>attempted := True\<rparr>]\<rparr>) ! 0)
   \<and> attempted
        (students
          (run (demo_state\<lparr>students := [demo_student\<lparr>attempted := True\<rparr>]\<rparr>)
             [(demo_env, Verify_roll,
               demo_request\<lparr>json_body :=
                 Inr (JObj [(''rollNumber'', JStr ''R001''), (''token'', JStr ''phone'')])\<rparr>),
              (demo_env, Submit,
               demo_request\<lparr>json_body := Inr (JObj [(''answers'', JObj [(''0'', JNum 2)])])\<rparr>),
              (demo_env, Questions, demo_request\<lparr>formId_param := Some ''101''\<rparr>)]) ! 0)"
  using attempted_one_way_latch
    [of 0 "demo_state\<lparr>students := [demo_student\<lparr>attempted := True\<rparr>]\<rparr>"
       "[(demo_env, Verify_roll,
               demo_request\<lparr>json_body :=
                 Inr (JObj [(''rollNumber'', JStr ''R001''), (''token'', JStr ''phone'')])\<rparr>),
              (demo_env, Submit,
               demo_request\<lparr>json_body := Inr (JObj [(''answers'', JObj [(''0'', JNum 2)])])\<rparr>),
              (demo_env, Questions, demo_request\<lparr>formId_param := Some ''101''\<rparr>)]"]
  by (simp add: demo_state_def)

section \<open>Claiming the session\<close>



subsection \<open>Five hours of local time\<close>

text \<open>A time value is the sum of its day, hour, minute, second and millisecond.\<close>

lemma time_value_split:
  fixes x :: int
  shows "(x div 86400000) * 86400000 + ((x div 3600000) mod 24) * 3600000
       + ((x div 60000) mod 60) * 60000 + ((x div 1000) mod 60) * 1000 + x mod 1000 = x"
proof -
  define q1 where "q1 = x div 1000"
  define q2 where "q2 = q1 div 60"
  define q3 where "q3 = q2 div 60"
  define q4 where "q4 = q3 div 24"
  have a: "x div 60000 = q2"
    using zdiv_zmult2_eq [of 60 x 1000] by (simp add: q1_def q2_def)
  have b: "x div 3600000 = q3"
    using zdiv_zmult2_eq [of 60 x 60000] by (simp add: a q3_def)
  have c: "x div 86400000 = q4"
    using zdiv_zmult2_eq [of 24 x 3600000] by (simp add: b q4_def)
  have x: "x = q1 * 1000 + x mod 1000"
    by (simp add: q1_def)
  have q1: "q1 = q2 * 60 + q1 mod 60"
    by (simp add: q2_def)
  have q2: "q2 = q3 * 60 + q2 mod 60"
    by (simp add: q3_def)
  have q3: "q3 = q4 * 24 + q3 mod 24"
    by (simp add: q4_def)
  have "q4 * 86400000 + (q3 mod 24) * 3600000 + (q2 mod 60) * 60000 + (q1 mod 60) * 1000
        + x mod 1000
      = ((q4 * 24 + q3 mod 24) * 60 + q2 mod 60) * 60000 + (q1 mod 60) * 1000 + x mod 1000"
    by (simp add: algebra_simps)
  also have "\<dots> = (q2 * 60 + q1 mod 60) * 1000 + x mod 1000"
    using q3 q2 by (simp add: algebra_simps)
  also have "\<dots> = x"
    using q1 x by simp
  finally show ?thesis
    by (simp add: a b c q1_def)
qed


lemma setHours_plus_five:
  "setHours e t (getHours e t + 5) =
     t + LocalTZA e t True + 18000000 - LocalTZA e (t + LocalTZA e t True + 18000000) False"
proof -
  define x where "x = LocalTime e t"
  have "MakeDate (Day x) (MakeTime (HourFromTime x + 5) (MinFromTime x) (SecFromTime x) (msFromTime x))
      = (x div 86400000) * 86400000 + ((x div 3600000) mod 24) * 3600000
        + ((x div 60000) mod 60) * 60000 + ((x div 1000) mod 60) * 1000 + x mod 1000 + 18000000"
    by (simp add: MakeDate_def MakeTime_def Day_def HourFromTime_def MinFromTime_def
          SecFromTime_def msFromTime_def msPerDay_def msPerHour_def msPerMinute_def
          msPerSecond_def distrib_right)
  also have "\<dots> = x + 18000000"
    by (simp only: time_value_split)
  finally show ?thesis
    by (simp add: setHours_def getHours_def UTC_def x_def LocalTime_def)
qed

text \<open>
  The new expiry is the instant whose local time is five hours after the local time of
  the clock reading; it is five hours after the reading itself wherever the zone has
  the same offset at both.
\<close>

lemma session_expiry_local:
  "session_expiry e =
     Date_now e 3 + LocalTZA e (Date_now e 3) True + 18000000
       - LocalTZA e (Date_now e 3 + LocalTZA e (Date_now e 3) True + 18000000) False"
  by (simp add: session_expiry_def setHours_plus_five)

lemma session_expiry_universal:
  "LocalTZA e = (\<lambda>t isUTC. 0) \<Longrightarrow> session_expiry e = Date_now e 3 + 18000000"
  by (simp add: session_expiry_local)

text \<open>
  Where the zone moves its clock forward by an hour within those five hours, the expiry
  stored is four hours after the reading.
\<close>

lemma session_expiry_across_offset_change:
  "session_expiry
     (demo_env_at 10000000\<lparr>LocalTZA := (\<lambda>t isUTC. if t < 20000000 then 0 else 3600000)\<rparr>)
     = 10000000 + 4 * 3600000"
  by (simp add: session_expiry_local demo_env_at_def)

subsection \<open>The session check\<close>





section \<open>Properties of question delivery\<close>

subsection \<open>The shuffle keeps the elements\<close>

lemma shuffle_loop_set_length:
  "k < length xs \<Longrightarrow>
     set (shuffle_loop rnd k xs) = set xs \<and> length (shuffle_loop rnd k xs) = length xs"
proof (induction k arbitrary: xs)
  case 0
  show ?case by simp
next
  case (Suc k)
  let ?j = "rnd (Suc k) mod (Suc k + 1)"
  let ?ys = "xs[Suc k := xs ! ?j, ?j := xs ! Suc k]"
  have "?j < Suc k + 1"
    by (rule mod_less_divisor) simp
  with Suc.prems have j: "?j < length xs"
    by linarith
  have "set ?ys = set xs"
    using Suc.prems j by (simp add: set_swap)
  moreover have "k < length ?ys"
    using Suc.prems by simp
  ultimately show ?case
    using Suc.IH [of ?ys] by simp
qed

lemma shuffleArray_set: "set (shuffleArray rnd xs) = set xs"
proof (cases xs)
  case Nil
  then show ?thesis by (simp add: shuffleArray_def)
next
  case (Cons x ys)
  then show ?thesis
    using shuffle_loop_set_length [of "length xs - 1" xs rnd]
    by (simp add: shuffleArray_def)
qed

subsection \<open>The cache as a map\<close>







lemma length_Map_set: "length (Map_set m k v) \<le> Suc (length m)"
  by (induction m) auto

lemma length_evict_Map_set:
  "length m \<le> MAX_CACHE_ENTRIES \<Longrightarrow> length (evict (Map_set m k v)) \<le> MAX_CACHE_ENTRIES"
  using length_Map_set [of m k v] by (auto simp: evict_def)

lemma Map_get_primitive: "Map_get m k = Some v \<Longrightarrow> primitive k"
  by (induction m) (auto simp: Map_get_def same_key_def split: if_splits)

lemma Map_get_member: "Map_get m k = Some v \<Longrightarrow> v \<in> snd ` set m"
  by (induction m) (auto simp: Map_get_def split: if_splits)

lemma set_Map_set: "snd ` set (Map_set m k v) \<subseteq> insert v (snd ` set m)"
  by (induction m) auto

lemma set_evict: "set (evict m) \<subseteq> set m"
  by (cases m) (auto simp: evict_def)

lemma cast_String_primitive: "cast_String v = Some s \<Longrightarrow> primitive v"
  by (cases v) simp_all

subsection \<open>What the cache holds\<close>

lemma mentions_list_strings: "\<not> mentions_list k (map JStr ss)"
  by (induction ss) simp_all

lemma mentions_primitive: "primitive v \<Longrightarrow> \<not> mentions k v"
  by (cases v) simp_all

lemma safe_question_clean:
  "client_question (safe_question q) \<and> \<not> mentions ''correctAnswer'' (safe_question q)"
  by (simp add: client_question_def safe_question_def mentions_list_strings)

lemma clean_shuffled:
  "clean_questions (shuffleArray rnd (map safe_question qs))"
  by (auto simp: clean_questions_def shuffleArray_set safe_question_clean)

lemma mentions_list_clean: "clean_questions qs \<Longrightarrow> \<not> mentions_list ''correctAnswer'' qs"
  by (induction qs) (simp_all add: clean_questions_def)

lemma cache_ok_store:
  assumes "cache_ok cache" and "clean_questions (cached_questions entry)"
  shows "cache_ok (evict (Map_set cache fid entry))"
proof -
  have "snd ` set (evict (Map_set cache fid entry)) \<subseteq> insert entry (snd ` set cache)"
    using set_evict [of "Map_set cache fid entry"] set_Map_set [of cache fid entry]
    by blast
  moreover have "\<forall>x \<in> insert entry (snd ` set cache). clean_questions (cached_questions x)"
    using assms by (simp add: cache_ok_def)
  ultimately have "\<forall>x \<in> snd ` set (evict (Map_set cache fid entry)).
      clean_questions (cached_questions x)"
    by (meson subsetD)
  with assms(1) show ?thesis
    by (simp add: cache_ok_def length_evict_Map_set)
qed

lemma fetch_questions_cache_ok:
  "cache_ok cache \<Longrightarrow> cache_ok (fst (fetch_questions e fs cache fid))"
  by (simp add: fetch_questions_def cache_ok_store clean_shuffled split: sum.split option.split)

lemma questions_GET_cache_ok:
  "cache_ok cache \<Longrightarrow> cache_ok (fst (questions_GET e fs cache req))"
  by (simp add: questions_GET_def fetch_questions_cache_ok split: option.split)

lemma handle_cache_ok:
  "cache_ok (QUESTION_CACHE st) \<Longrightarrow> cache_ok (QUESTION_CACHE (fst (handle e ep st req)))"
proof (cases ep)
  case Questions
  assume "cache_ok (QUESTION_CACHE st)"
  then show ?thesis
    using Questions questions_GET_cache_ok [of "QUESTION_CACHE st" e "forms st" req]
    by (cases "questions_GET e (forms st) (QUESTION_CACHE st) req") simp
qed (simp_all split: prod.split)

lemma reachable_cache_ok: "reachable st \<Longrightarrow> cache_ok (QUESTION_CACHE st)"
proof (induction rule: reachable.induct)
  case (start st)
  then show ?case by (simp add: cache_ok_def)
next
  case (serve st e ep req)
  then show ?case by (simp add: handle_cache_ok)
qed

subsection \<open>What the endpoint answers\<close>

lemma findForm_primitive: "findForm fs (Some fid) = Inr (Some frm) \<Longrightarrow> primitive fid"
  by (cases "cast_String fid") (auto dest: cast_String_primitive)

lemma servedI:
  "primitive fid \<Longrightarrow> clean_questions qs \<Longrightarrow> \<not> mentions_props ''correctAnswer'' md
     \<Longrightarrow> served (questions_response fid qs md)"
  unfolding served_def by blast

lemma fetch_questions_served: "served (snd (fetch_questions e fs cache fid))"
proof (cases "findForm fs (Some fid)")
  case (Inl err)
  then show ?thesis by (auto simp: fetch_questions_def served_def)
next
  case (Inr found)
  show ?thesis
  proof (cases found)
    case None
    with Inr show ?thesis by (auto simp: fetch_questions_def served_def)
  next
    case (Some frm)
    with Inr have "primitive fid" by (simp add: findForm_primitive)
    then have "served (questions_response fid
        (shuffleArray (random e) (map safe_question (questions frm)))
        [(''fetchTime'', JNum (Date_now e 3 - Date_now e 0)), (''cacheHit'', JBool False)])"
      by (intro servedI) (simp_all add: clean_shuffled)
    with Inr Some show ?thesis
      by (simp add: fetch_questions_def)
  qed
qed

lemma questions_GET_served:
  assumes "cache_ok cache"
  shows "served (snd (questions_GET e fs cache req))"
proof -
  have hit: "served (questions_response fid (cached_questions entry) [(''cacheHit'', JBool True)])"
    if "Map_get cache fid = Some entry" for fid entry
  proof -
    from that have "primitive fid" by (rule Map_get_primitive)
    moreover from that have "entry \<in> snd ` set cache" by (rule Map_get_member)
    with assms have "clean_questions (cached_questions entry)"
      unfolding cache_ok_def by blast
    ultimately show ?thesis
      by (intro servedI) simp_all
  qed
  have fail: "served (failure st msg)" if "st \<noteq> 200" for st msg
    using that by (auto simp: served_def)
  show ?thesis
    by (simp add: questions_GET_def hit fail fetch_questions_served split: option.split)
qed

lemma served_body:
  assumes "served r"
  shows "\<not> mentions ''correctAnswer'' (body r)
       \<and> (status r = 200 \<longrightarrow>
            (\<exists>qs. get_prop (body r) ''questions'' = Some (JArr qs) \<and> list_all client_question qs))"
  using assms
  by (auto simp: served_def failure_def json_response_def questions_response_def
        mentions_primitive mentions_list_clean clean_questions_def list_all_iff)

text \<open>
  C5. In every state of a process that started with an empty cache, whatever the
  request, the body answered by the question endpoint mentions no \<open>correctAnswer\<close>
  anywhere, and a 200 answer carries a list of questions each of which is an object of
  exactly the fields \<open>id\<close>, \<open>question\<close>, \<open>options\<close>; this covers the answer from the cache
  and the answer from the store.
\<close>

theorem questions_never_carry_the_answer_key:
  assumes "reachable st"
  shows "\<not> mentions ''correctAnswer'' (body (snd (handle e Questions st req)))
       \<and> (status (snd (handle e Questions st req)) = 200 \<longrightarrow>
            (\<exists>qs. get_prop (body (snd (handle e Questions st req))) ''questions'' = Some (JArr qs)
                  \<and> list_all client_question qs))"
proof -
  from assms have "cache_ok (QUESTION_CACHE st)" by (rule reachable_cache_ok)
  then have "served (snd (questions_GET e (forms st) (QUESTION_CACHE st) req))"
    by (rule questions_GET_served)
  moreover have "snd (handle e Questions st req)
      = snd (questions_GET e (forms st) (QUESTION_CACHE st) req)"
    by (cases "questions_GET e (forms st) (QUESTION_CACHE st) req") simp
  ultimately show ?thesis
    using served_body by simp
qed

subsection \<open>The cached order\<close>


lemma status_failure: "status (failure st msg) = st"
  by (simp add: failure_def json_response_def)





lemma demo_first_fetch:
  "questions_GET demo_env [demo_form] [] demo_questions_request =
     (demo_cache,
      questions_response (JStr ''101'')
        [safe_question (questions demo_form ! 1), safe_question (questions demo_form ! 0)]
        [(''fetchTime'', JNum 0), (''cacheHit'', JBool False)])"
  by (simp add: demo_questions_request_def demo_defs demo_cache_def questions_GET_def
        resolve_formId_def or_else_def Map_get_def fetch_questions_def findOne_def
        shuffleArray_def evict_def MAX_CACHE_ENTRIES_def)

lemma demo_state_reachable: "reachable demo_state"
  by (rule reachable.start) (simp_all add: demo_state_def)


subsection \<open>The instance: a second request served from the cache\<close>

lemma demo_cache_reachable: "reachable (demo_state\<lparr>QUESTION_CACHE := demo_cache\<rparr>)"
proof -
  have "fst (handle demo_env Questions demo_state demo_questions_request)
      = demo_state\<lparr>QUESTION_CACHE := demo_cache\<rparr>"
    using demo_first_fetch by (simp add: demo_state_def)
  then show ?thesis
    using reachable.serve [OF demo_state_reachable, of demo_env Questions demo_questions_request]
    by simp
qed

lemma demo_second_fetch:
  "handle demo_env_later Questions (demo_state\<lparr>QUESTION_CACHE := demo_cache\<rparr>)
       demo_questions_request =
     (demo_state\<lparr>QUESTION_CACHE := demo_cache\<rparr>,
      questions_response (JStr ''101'')
        [safe_question (questions demo_form ! 1), safe_question (questions demo_form ! 0)]
        [(''cacheHit'', JBool True)])"
  by (simp add: demo_questions_request_def demo_defs demo_env_later_def demo_cache_def
        demo_state_def questions_GET_def resolve_formId_def or_else_def Map_get_def
        same_key_def CACHE_DURATION_def)

theorem questions_never_carry_the_answer_key_witness:
  "reachable (demo_state\<lparr>QUESTION_CACHE := demo_cache\<rparr>)
   \<and> status (snd (handle demo_env_later Questions (demo_state\<lparr>QUESTION_CACHE := demo_cache\<rparr>)
                    demo_questions_request)) = 200
   \<and> \<not> mentions ''correctAnswer''
         (body (snd (handle demo_env_later Questions (demo_state\<lparr>QUESTION_CACHE := demo_cache\<rparr>)
                       demo_questions_request)))
   \<and> (\<exists>qs. get_prop (body (snd (handle demo_env_later Questions
                                   (demo_state\<lparr>QUESTION_CACHE := demo_cache\<rparr>)
                                   demo_questions_request))) ''questions'' = Some (JArr qs)
           \<and> list_all client_question qs)"
proof -
  have "status (snd (handle demo_env_later Questions (demo_state\<lparr>QUESTION_CACHE := demo_cache\<rparr>)
                    demo_questions_request)) = 200"
    unfolding demo_second_fetch
    by (simp add: questions_response_def json_response_def)
  with questions_never_carry_the_answer_key
         [OF demo_cache_reachable, of demo_env_later demo_questions_request]
    demo_cache_reachable
  show ?thesis by blast
qed

section \<open>The form id of a question request\<close>

lemma object_of_no_key:
  "k \<notin> fst ` set kvs \<Longrightarrow> map_of (object_of kvs) k = None"
  by (induction kvs rule: object_of.induct) auto

lemma session_claims_no_formId: "map_of (session_claims e d ph) ''formId'' = None"
  unfolding session_claims_def
  by (rule object_of_no_key) simp

lemma session_claims_courseId: "map_of (session_claims e d ph) ''courseId'' = Course_ID d"
  by (cases ph; cases "Student_Name d"; cases "Course_ID d") (simp_all add: session_claims_def)

text \<open>
  C7. A question request with a valid session credential and no \<open>formId\<close> parameter is to
  take the form id from the course id in the credential.  The handler reads the claim
  \<open>formId\<close>, while the roll verification signs the course id under \<open>courseId\<close> (the claim
  the submission reads).  So for every token whose claims are those the roll
  verification signs, a request without the parameter (or with an empty one) is
  answered 400, whatever course id the claims carry.
\<close>

theorem questions_fallback_misses_courseId:
  assumes "session_token req = Some tok" "tok \<noteq> []"
    and "jwtVerify e tok = Some (session_claims e0 d ph)"
    and "formId_param req = None \<or> formId_param req = Some []"
  shows "map_of (session_claims e0 d ph) ''courseId'' = Course_ID d
       \<and> questions_GET e fs cache req = (cache, failure 400 ''Form ID is required'')"
  using assms
  by (auto simp: questions_GET_def resolve_formId_def or_else_def session_claims_no_formId
        session_claims_courseId)

text \<open>
  On the instance: the cookie set by the roll verification verifies to claims with
  \<open>courseId\<close> 101, form 101 exists and is the one a submission would find, and the
  request without the parameter is answered 400.
\<close>

lemma demo_session_claims:
  "session_claims demo_env demo_student (Some (JStr ''9876543210'')) =
     [(''studentId'', JStr ''s1''), (''rollNumber'', JStr ''R001''),
      (''phone'', JStr ''9876543210''), (''name'', JStr ''Asha''),
      (''sessionStart'', JStr ''7000''), (''sessionExpires'', JStr ''18007000''),
      (''courseId'', JNum 101)]"
  by (simp add: session_claims_def session_expiry_universal demo_defs show_simps)

lemma demo_login:
  "verify_roll_POST demo_env [demo_student] demo_roll_request =
     ([claim_session (Some (JStr ''9876543210''))
         \<lparr>isActive = True, startTime = Some 7000, deviceId = Some ''Mozilla/5.0'',
          expiresAt = Some 18007000\<rparr> demo_student],
      login_response demo_env demo_student ''session'')"
  by (simp add: verify_roll_POST_def demo_roll_request_def demo_defs demo_trim_def findOne_def
        expiryTime_def device_of_def session_expiry_universal)

theorem questions_fallback_misses_courseId_witness:
  "cookie_set (snd (verify_roll_POST demo_env [demo_student] demo_roll_request)) = Some ''session''
   \<and> jwtVerify demo_env ''session''
       = Some (session_claims demo_env demo_student (Some (JStr ''9876543210'')))
   \<and> Course_ID demo_student = Some (JNum 101)
   \<and> findForm [demo_form] (optional_toString (Some (JNum 101))) = Inr (Some demo_form)
   \<and> session_token demo_request = Some ''session''
   \<and> formId_param demo_request = None
   \<and> map_of (session_claims demo_env demo_student (Some (JStr ''9876543210''))) ''courseId''
       = Some (JNum 101)
   \<and> questions_GET demo_env [demo_form] [] demo_request
       = ([], failure 400 ''Form ID is required'')"
proof -
  have cookie: "cookie_set (snd (verify_roll_POST demo_env [demo_student] demo_roll_request))
      = Some ''session''"
    unfolding demo_login by (simp add: login_response_def)
  have claims: "jwtVerify demo_env ''session''
       = Some (session_claims demo_env demo_student (Some (JStr ''9876543210'')))"
    unfolding demo_session_claims by (simp add: demo_env_def)
  have course: "Course_ID demo_student = Some (JNum 101)"
    by (simp add: demo_student_def)
  have form: "findForm [demo_form] (optional_toString (Some (JNum 101))) = Inr (Some demo_form)"
    by (simp add: findOne_def demo_form_def show_simps)
  have req: "session_token demo_request = Some ''session''" "formId_param demo_request = None"
    by (simp_all add: demo_request_def)
  have "''session'' \<noteq> []" and "formId_param demo_request = None \<or> formId_param demo_request = Some []"
    using req by simp_all
  from questions_fallback_misses_courseId [OF req(1) this(1) claims this(2), of "[demo_form]" "[]"]
    cookie claims course form req
  show ?thesis by simp
qed

section \<open>Properties of the one-time passcodes\<close>

subsection \<open>A code verifies once\<close>

lemma findOne_deleteOne_unique:
  assumes "distinct (map phone docs)" and "\<And>d. P d \<Longrightarrow> phone d = p"
  shows "findOne P (deleteOne P docs) = None"
  using assms(1)
proof (induction docs)
  case Nil
  show ?case by (simp add: findOne_def)
next
  case (Cons x docs)
  show ?case
  proof (cases "P x")
    case True
    have "\<not> P y" if "y \<in> set docs" for y
    proof
      assume "P y"
      with True have same: "phone y = phone x" by (simp add: assms(2))
      from Cons.prems have "phone x \<notin> phone ` set docs" by simp
      with that same show False by (metis imageI)
    qed
    with True show ?thesis
      by (simp add: findOne_def find_None_iff)
  next
    case False
    with Cons show ?thesis by (simp add: findOne_def)
  qed
qed

lemma verify_otp_POST_wellformed:
  assumes "json_body req = Inr b" "get_prop b ''phone'' = Some ph" "get_prop b ''otp'' = Some code"
    and "truthy ph" "truthy code" "test_digits 10 ph" "test_digits 6 code"
    and "cast_String ph = Some p" "cast_String code = Some c"
  shows "verify_otp_POST e docs req =
     (case findOne (\<lambda>d. phone d = p \<and> otp d = c) docs of
        None \<Rightarrow> (docs, failure 400 ''Invalid OTP'')
      | Some otpRecord \<Rightarrow>
          if Date_now e 0 - createdAt otpRecord > 5 * 60 * 1000
          then (deleteOne (\<lambda>d. phone d = p \<and> otp d = c) docs, failure 400 ''OTP has expired'')
          else (deleteOne (\<lambda>d. phone d = p \<and> otp d = c) docs,
                case verify_otp_SignJWT e of
                  None \<Rightarrow> verify_error
                | Some sign \<Rightarrow> otp_verified (sign [(''phone'', ph), (''verified'', JBool True)] ''10m'')))"
proof -
  from assms have "b \<noteq> JNull" by auto
  then show ?thesis
    using assms
    by (cases b) (simp_all add: verify_otp_POST_def otp_verified_def split: option.split)
qed

lemma verify_otp_POST_success:
  assumes "status (snd (verify_otp_POST e docs req)) = 200"
  shows "\<exists>b ph code p c. json_body req = Inr b \<and> get_prop b ''phone'' = Some ph
           \<and> get_prop b ''otp'' = Some code \<and> truthy ph \<and> truthy code
           \<and> test_digits 10 ph \<and> test_digits 6 code
           \<and> cast_String ph = Some p \<and> cast_String code = Some c"
  using assms
  by (auto simp: verify_otp_POST_def verify_error_def status_failure
        split: sum.splits json.splits option.splits if_splits)


lemma verify_otp_POST_consumes:
  assumes wf: "json_body req = Inr b" "get_prop b ''phone'' = Some ph" "get_prop b ''otp'' = Some code"
      "truthy ph" "truthy code" "test_digits 10 ph" "test_digits 6 code"
      "cast_String ph = Some p" "cast_String code = Some c"
    and uniq: "distinct (map phone docs)"
    and found: "findOne (\<lambda>d. phone d = p \<and> otp d = c) docs = Some otpRecord"
    and same: "json_body req' = json_body req"
  shows "fst (verify_otp_POST e docs req) = deleteOne (\<lambda>d. phone d = p \<and> otp d = c) docs"
    and "verify_otp_POST e' (deleteOne (\<lambda>d. phone d = p \<and> otp d = c) docs) req'
           = (deleteOne (\<lambda>d. phone d = p \<and> otp d = c) docs, failure 400 ''Invalid OTP'')"
proof -
  show "fst (verify_otp_POST e docs req) = deleteOne (\<lambda>d. phone d = p \<and> otp d = c) docs"
    using found by (simp add: verify_otp_POST_wellformed [OF wf])
  have gone: "findOne (\<lambda>d. phone d = p \<and> otp d = c)
      (deleteOne (\<lambda>d. phone d = p \<and> otp d = c) docs) = None"
    using uniq by (rule findOne_deleteOne_unique) simp
  from same wf(1) have "json_body req' = Inr b" by simp
  from verify_otp_POST_wellformed [OF this wf(2-9)] gone
  show "verify_otp_POST e' (deleteOne (\<lambda>d. phone d = p \<and> otp d = c) docs) req'
           = (deleteOne (\<lambda>d. phone d = p \<and> otp d = c) docs, failure 400 ''Invalid OTP'')"
    by simp
qed

lemma verify_otp_POST_removed:
  assumes "fst (verify_otp_POST e docs req) \<noteq> docs"
  shows "\<exists>b ph code p c. json_body req = Inr b \<and> get_prop b ''phone'' = Some ph
           \<and> get_prop b ''otp'' = Some code \<and> truthy ph \<and> truthy code
           \<and> test_digits 10 ph \<and> test_digits 6 code
           \<and> cast_String ph = Some p \<and> cast_String code = Some c"
  using assms
  by (auto simp: verify_otp_POST_def
        split: sum.splits json.splits option.splits if_splits)

text \<open>
  With \<open>SignJWT\<close> unbound, as the module stands, no verification is answered 200; the
  record of a matching code is removed all the same (\<open>verify_otp_POST_consumes\<close>).
\<close>

lemma verify_otp_POST_unbound:
  "verify_otp_SignJWT e = None \<Longrightarrow> status (snd (verify_otp_POST e docs req)) \<noteq> 200"
  by (auto simp: verify_otp_POST_def verify_error_def status_failure
        split: sum.splits json.splits option.splits if_splits)

text \<open>
  C8. In a collection with one record per phone, once a verification of a phone and a
  code has been answered 200 (or, where the token could not be signed, has removed the
  record), the record is gone: a further verification with the same body, at any time,
  is answered 400 \<open>Invalid OTP\<close> and changes nothing.  So a code verifies at most once.
  (Requests are served one after the other, and the removal the handler starts has
  taken effect.)
\<close>

theorem verifyCode_single_use:
  assumes uniq: "distinct (map phone docs)"
    and first: "verify_otp_POST e docs req = (docs', r)"
    and consumed: "status r = 200 \<or> docs' \<noteq> docs"
    and same: "json_body req' = json_body req"
  shows "verify_otp_POST e' docs' req' = (docs', failure 400 ''Invalid OTP'')"
proof -
  from first consumed
  have "status (snd (verify_otp_POST e docs req)) = 200 \<or> fst (verify_otp_POST e docs req) \<noteq> docs"
    by simp
  then obtain b ph code p c where
    wf: "json_body req = Inr b" "get_prop b ''phone'' = Some ph" "get_prop b ''otp'' = Some code"
      "truthy ph" "truthy code" "test_digits 10 ph" "test_digits 6 code"
      "cast_String ph = Some p" "cast_String code = Some c"
    using verify_otp_POST_success verify_otp_POST_removed by blast
  obtain otpRecord where found: "findOne (\<lambda>d. phone d = p \<and> otp d = c) docs = Some otpRecord"
    using first consumed by (cases "findOne (\<lambda>d. phone d = p \<and> otp d = c) docs")
      (auto simp: verify_otp_POST_wellformed [OF wf] status_failure)
  from verify_otp_POST_consumes(1) [OF wf uniq found same, of e] first
  have "docs' = deleteOne (\<lambda>d. phone d = p \<and> otp d = c) docs"
    by simp
  with verify_otp_POST_consumes(2) [OF wf uniq found same, of e'] show ?thesis
    by simp
qed

theorem verifyCode_single_use_witness:
  "distinct (map phone [demo_otp_record])
   \<and> verify_otp_POST demo_env [demo_otp_record] demo_verify_request = ([], otp_verified ''phone'')
   \<and> status (otp_verified ''phone'') = 200
   \<and> verify_otp_POST demo_env_later [] demo_verify_request = ([], failure 400 ''Invalid OTP'')
   \<and> verify_otp_POST (demo_env\<lparr>verify_otp_SignJWT := None\<rparr>) [demo_otp_record] demo_verify_request
       = ([], verify_error)
   \<and> [] \<noteq> [demo_otp_record]
   \<and> verify_otp_POST (demo_env_later\<lparr>verify_otp_SignJWT := None\<rparr>) [] demo_verify_request
       = ([], failure 400 ''Invalid OTP'')"
proof -
  have first: "verify_otp_POST demo_env [demo_otp_record] demo_verify_request
      = ([], otp_verified ''phone'')"
    by (simp add: verify_otp_POST_def demo_verify_request_def demo_otp_record_def demo_defs
          test_digits_def is_digit_def digit_chars_def findOne_def otp_verified_def)
  have ok: "status (otp_verified ''phone'') = 200 \<or> [] \<noteq> [demo_otp_record]"
    by (simp add: otp_verified_def json_response_def)
  have unbound: "verify_otp_POST (demo_env\<lparr>verify_otp_SignJWT := None\<rparr>) [demo_otp_record]
      demo_verify_request = ([], verify_error)"
    by (simp add: verify_otp_POST_def demo_verify_request_def demo_otp_record_def demo_defs
          test_digits_def is_digit_def digit_chars_def findOne_def)
  have removed: "status verify_error = 200 \<or> [] \<noteq> [demo_otp_record]"
    by simp
  have uniq: "distinct (map phone [demo_otp_record])"
    by simp
  from verifyCode_single_use [OF uniq first ok refl, of demo_env_later]
    verifyCode_single_use [OF uniq unbound removed refl,
      of "demo_env_later\<lparr>verify_otp_SignJWT := None\<rparr>"]
    first unbound
  show ?thesis
    by (simp add: otp_verified_def json_response_def)
qed

text \<open>One record per phone is kept by every handler, so it holds as long as it held once.\<close>

lemma distinct_phone_updateOne:
  "distinct (map phone docs) \<Longrightarrow> (\<And>d. phone (f d) = phone d)
     \<Longrightarrow> map phone (updateOne P f docs) = map phone docs"
  by (induction docs) simp_all

lemma distinct_phone_upsert:
  "distinct (map phone docs) \<Longrightarrow> distinct (map phone (upsert_otp p cc code t docs))"
  by (auto simp: upsert_otp_def distinct_phone_updateOne list_ex_iff)

lemma set_deleteOne: "set (deleteOne P docs) \<subseteq> set docs"
  by (induction docs) auto

lemma distinct_phone_deleteOne:
  "distinct (map phone docs) \<Longrightarrow> distinct (map phone (deleteOne P docs))"
proof (induction docs)
  case Nil
  show ?case by simp
next
  case (Cons d docs)
  then show ?case
    using set_deleteOne [of P docs] by auto
qed

lemma send_otp_POST_distinct:
  "distinct (map phone docs) \<Longrightarrow> distinct (map phone (snd (fst (send_otp_POST e (cache, docs) req))))"
  by (simp add: send_otp_POST_def store_and_send_def distinct_phone_upsert
        split: sum.split json.split option.split)

lemma verify_otp_POST_distinct:
  "distinct (map phone docs) \<Longrightarrow> distinct (map phone (fst (verify_otp_POST e docs req)))"
  by (simp add: verify_otp_POST_def distinct_phone_deleteOne
        split: sum.split json.split option.split)

lemma handle_distinct_phones:
  assumes "distinct (map phone (otps st))"
  shows "distinct (map phone (otps (fst (handle e ep st req))))"
proof (cases ep)
  case Send_otp
  then show ?thesis
    using send_otp_POST_distinct [OF assms, of e "rateLimitCache st" req]
    by (cases "send_otp_POST e (rateLimitCache st, otps st) req") auto
next
  case Verify_otp
  then show ?thesis
    using verify_otp_POST_distinct [OF assms, of e req]
    by (cases "verify_otp_POST e (otps st) req") simp
qed (use assms in \<open>simp_all split: prod.split\<close>)

lemma run_distinct_phones:
  "distinct (map phone (otps st)) \<Longrightarrow> distinct (map phone (otps (run st evs)))"
proof (induction evs arbitrary: st)
  case Nil
  then show ?case by simp
next
  case (Cons ev evs)
  obtain e ep req where ev: "ev = (e, ep, req)"
    by (cases ev)
  from Cons.prems have "distinct (map phone (otps (fst (handle e ep st req))))"
    by (rule handle_distinct_phones)
  then show ?case
    using Cons.IH by (simp add: ev del: handle.simps)
qed

subsection \<open>Asking for a code again\<close>

lemma send_otp_POST_valid:
  assumes "json_body req = Inr b" "get_prop b ''phone'' = Some (JStr p)" "test_digits 10 (JStr p)"
  shows "send_otp_POST e (cache, docs) req =
     (case rate_limit cache (rate_key req p) (Date_now e 0) of
        None \<Rightarrow> ((cache, docs), too_many_requests)
      | Some cache' \<Rightarrow>
          (case findOne (\<lambda>d. phone d = p) docs of
             Some existingOtp \<Rightarrow>
               if Date_now e 0 - createdAt existingOtp < 60000
               then ((cache', docs), resend_too_soon)
               else store_and_send e cache' p (get_prop b ''countryCode'') docs
           | None \<Rightarrow> store_and_send e cache' p (get_prop b ''countryCode'') docs))"
proof -
  from assms have "b \<noteq> JNull" by auto
  moreover from assms(3) have "p \<noteq> []" by (auto simp: test_digits_def)
  ultimately show ?thesis
    using assms
    by (cases b) (simp_all add: send_otp_POST_def rate_key_def split: option.split)
qed

lemma findOne_append_new:
  "\<not> list_ex P docs \<Longrightarrow> P d \<Longrightarrow> findOne P (docs @ [d]) = Some d"
  by (induction docs) (simp_all add: findOne_def)

lemma findOne_upsert_otp:
  "\<exists>d. findOne (\<lambda>d. phone d = p) (upsert_otp p cc code t docs) = Some d \<and> createdAt d = t"
proof (cases "list_ex (\<lambda>d. phone d = p) docs")
  case True
  then obtain d where d: "findOne (\<lambda>d. phone d = p) docs = Some d"
    by (cases "findOne (\<lambda>d. phone d = p) docs")
       (auto simp: findOne_def find_None_iff list_ex_iff)
  then have "phone d = p" by (rule findOne_holds)
  with d have "findOne (\<lambda>d. phone d = p)
      (updateOne (\<lambda>d. phone d = p) (\<lambda>d. d\<lparr>countryCode := cc, otp := code, createdAt := t\<rparr>) docs)
      = Some (d\<lparr>countryCode := cc, otp := code, createdAt := t\<rparr>)"
    by (intro findOne_updateOne) simp_all
  with True show ?thesis
    by (simp add: upsert_otp_def)
next
  case False
  then show ?thesis
    by (simp add: upsert_otp_def findOne_append_new)
qed

lemma store_and_send_success:
  assumes "store_and_send e cache p country docs = ((cache1, docs1), r)" "status r = 200"
  shows "\<exists>d. findOne (\<lambda>d. phone d = p) docs1 = Some d \<and> createdAt d = Date_now e 1"
proof -
  from assms obtain cc where "docs1 = upsert_otp p cc (generate_otp e) (Date_now e 1) docs"
    by (auto simp: store_and_send_def send_error_def status_failure
          split: sum.splits option.splits)
  then show ?thesis
    by (simp add: findOne_upsert_otp)
qed

lemma send_otp_POST_success:
  assumes req: "json_body req = Inr b" "get_prop b ''phone'' = Some (JStr p)" "test_digits 10 (JStr p)"
    and first: "send_otp_POST e (cache, docs) req = ((cache1, docs1), r)" "status r = 200"
  shows "\<exists>d. findOne (\<lambda>d. phone d = p) docs1 = Some d \<and> createdAt d = Date_now e 1"
proof -
  note eq = send_otp_POST_valid [OF req, of e cache docs]
  from first eq obtain cache' where
    "store_and_send e cache' p (get_prop b ''countryCode'') docs = ((cache1, docs1), r)"
    by (auto simp: too_many_requests_def resend_too_soon_def status_failure
          split: option.splits if_splits)
  then show ?thesis
    using first(2) by (rule store_and_send_success)
qed

lemma responses_differ:
  "too_many_requests \<noteq> resend_too_soon"
  "status resend_too_soon = 429" "status too_many_requests = 429"
  "status (snd (store_and_send e cache p country docs)) \<noteq> 429"
  by (auto simp: too_many_requests_def resend_too_soon_def failure_def json_response_def
        store_and_send_def send_error_def sent_response_def split: sum.splits option.splits)

subsection \<open>The instance: codes sent to one phone\<close>

lemma demo_generate_otp: "generate_otp (demo_env_at t) = ''100000''"
  by (simp add: generate_otp_def demo_env_at_def demo_env_def show_simps)

lemma demo_phone_valid: "test_digits 10 (JStr ''9876543210'')"
  by (simp add: test_digits_def is_digit_def digit_chars_def)

lemmas demo_send_defs =
  send_otp_POST_valid [OF _ _ demo_phone_valid] rate_key_def header_or_unknown_def
  demo_send_request_def demo_request_def demo_env_at_def demo_env_def demo_sent_def demo_state_def
  rate_limit_def RATE_LIMIT_WINDOW_def MAX_REQUESTS_def findOne_def store_and_send_def
  upsert_otp_def

lemma demo_send_first:
  "handle (demo_env_at 0) Send_otp demo_state demo_send_request =
     (demo_sent 1 0, sent_response (demo_env_at 0) ''100000'')"
  using demo_generate_otp [of 0]
  by (simp add: demo_send_defs)

lemma demo_send_next:
  assumes "n < 5" and "60000 \<le> t' - t" and "t' < 900000"
  shows "handle (demo_env_at t') Send_otp (demo_sent n t) demo_send_request =
     (demo_sent (Suc n) t', sent_response (demo_env_at t') ''100000'')"
  using demo_generate_otp [of t'] assms
  by (simp add: demo_send_defs)

lemma demo_send_limit:
  assumes "t' < 900000"
  shows "handle (demo_env_at t') Send_otp (demo_sent 5 t) demo_send_request =
     (demo_sent 5 t, too_many_requests)"
  using assms
  by (simp add: demo_send_defs)


lemma demo_five_sends:
  "run demo_state
     [(demo_env_at 0, Send_otp, demo_send_request),
      (demo_env_at 61000, Send_otp, demo_send_request),
      (demo_env_at 122000, Send_otp, demo_send_request),
      (demo_env_at 183000, Send_otp, demo_send_request),
      (demo_env_at 244000, Send_otp, demo_send_request)] = demo_sent 5 244000"
  by (simp add: demo_send_first demo_send_next eval_nat_numeral del: handle.simps)

text \<open>
  C9, as the code has it.  After a request for a valid ten-digit phone was answered 200,
  a second request for the same phone whose clock reading is less than 60 seconds after
  the time stamp of the stored record is answered 429 and stores no new code; the
  answer is the resend rejection, unless the rate limiter of the (address, phone) key
  turns the request away first, and then it is the rate-limit rejection.  From 60
  seconds on, the answer is never the resend rejection.
\<close>

theorem resend_within_a_minute_is_rejected:
  assumes req: "json_body req = Inr b" "get_prop b ''phone'' = Some (JStr p)"
      "test_digits 10 (JStr p)"
    and req': "json_body req' = Inr b'" "get_prop b' ''phone'' = Some (JStr p)"
    and first: "send_otp_POST e (cache, docs) req = ((cache1, docs1), r)" "status r = 200"
  shows "(Date_now e' 0 - Date_now e 1 < 60000 \<longrightarrow>
            status (snd (send_otp_POST e' (cache1, docs1) req')) = 429
          \<and> snd (fst (send_otp_POST e' (cache1, docs1) req')) = docs1
          \<and> snd (send_otp_POST e' (cache1, docs1) req') =
              (if rate_limit cache1 (rate_key req' p) (Date_now e' 0) = None
               then too_many_requests else resend_too_soon))
       \<and> (60000 \<le> Date_now e' 0 - Date_now e 1 \<longrightarrow>
            snd (send_otp_POST e' (cache1, docs1) req') \<noteq> resend_too_soon)"
proof -
  obtain d where d: "findOne (\<lambda>d. phone d = p) docs1 = Some d" "createdAt d = Date_now e 1"
    using send_otp_POST_success [OF req first] by blast
  note second = send_otp_POST_valid [OF req' req(3), of e' cache1 docs1]
  have "status (snd (store_and_send e' c p (get_prop b' ''countryCode'') docs1)) \<noteq> 429" for c
    by (rule responses_differ)
  then have other: "snd (store_and_send e' c p (get_prop b' ''countryCode'') docs1) \<noteq> resend_too_soon" for c
    using responses_differ(2) by metis
  show ?thesis
    using d other
    by (auto simp: second responses_differ split: option.splits)
qed

theorem resend_within_a_minute_is_rejected_witness:
  "test_digits 10 (JStr ''9876543210'')
   \<and> send_otp_POST (demo_env_at 0) (Map.empty, []) demo_send_request
       = ((rateLimitCache (demo_sent 1 0), otps (demo_sent 1 0)),
          sent_response (demo_env_at 0) ''100000'')
   \<and> status (sent_response (demo_env_at 0) ''100000'') = 200
   \<and> Date_now (demo_env_at 1000) 0 - Date_now (demo_env_at 0) 1 < 60000
   \<and> status (snd (send_otp_POST (demo_env_at 1000)
                    (rateLimitCache (demo_sent 1 0), otps (demo_sent 1 0)) demo_send_request)) = 429
   \<and> snd (send_otp_POST (demo_env_at 1000)
            (rateLimitCache (demo_sent 1 0), otps (demo_sent 1 0)) demo_send_request)
       = resend_too_soon"
proof -
  have body: "json_body demo_send_request = Inr (JObj [(''phone'', JStr ''9876543210'')])"
      "get_prop (JObj [(''phone'', JStr ''9876543210'')]) ''phone'' = Some (JStr ''9876543210'')"
    by (simp_all add: demo_send_request_def)
  have first: "send_otp_POST (demo_env_at 0) (Map.empty, []) demo_send_request
       = ((rateLimitCache (demo_sent 1 0), otps (demo_sent 1 0)),
          sent_response (demo_env_at 0) ''100000'')"
    using demo_generate_otp [of 0] by (simp add: demo_send_defs)
  have ok: "status (sent_response (demo_env_at 0) ''100000'') = 200"
    by (simp add: sent_response_def json_response_def)
  have soon: "Date_now (demo_env_at 1000) 0 - Date_now (demo_env_at 0) 1 < 60000"
    by (simp add: demo_env_at_def)
  have free: "rate_limit (rateLimitCache (demo_sent 1 0))
      (rate_key demo_send_request ''9876543210'') (Date_now (demo_env_at 1000) 0) \<noteq> None"
    by (simp add: rate_limit_def rate_key_def header_or_unknown_def demo_send_request_def
          demo_request_def demo_sent_def demo_env_at_def RATE_LIMIT_WINDOW_def MAX_REQUESTS_def)
  from resend_within_a_minute_is_rejected
         [OF body demo_phone_valid body first ok, of "demo_env_at 1000"] soon free
  have "status (snd (send_otp_POST (demo_env_at 1000)
                    (rateLimitCache (demo_sent 1 0), otps (demo_sent 1 0)) demo_send_request)) = 429
      \<and> snd (send_otp_POST (demo_env_at 1000)
            (rateLimitCache (demo_sent 1 0), otps (demo_sent 1 0)) demo_send_request)
        = resend_too_soon"
    by (auto simp: responses_differ)
  with demo_phone_valid first ok soon show ?thesis
    by (simp add: responses_differ)
qed

text \<open>
  The claim as stated, a rejection "resend too soon" for every immediate second
  request, fails on the fifth and sixth request of a quarter of an hour: five codes
  sent at 0, 61, 122, 183 and 244 seconds are all accepted, and the request one second
  after the fifth, with the record one second old, gets the rate-limit rejection.
\<close>

theorem sixth_request_is_rate_limited:
  "run demo_state
     [(demo_env_at 0, Send_otp, demo_send_request),
      (demo_env_at 61000, Send_otp, demo_send_request),
      (demo_env_at 122000, Send_otp, demo_send_request),
      (demo_env_at 183000, Send_otp, demo_send_request),
      (demo_env_at 244000, Send_otp, demo_send_request)] = demo_sent 5 244000
   \<and> status (snd (handle (demo_env_at 244000) Send_otp (demo_sent 4 183000) demo_send_request)) = 200
   \<and> map createdAt (otps (demo_sent 5 244000)) = [244000]
   \<and> Date_now (demo_env_at 245000) 0 - 244000 < 60000
   \<and> snd (handle (demo_env_at 245000) Send_otp (demo_sent 5 244000) demo_send_request)
       = too_many_requests
   \<and> too_many_requests \<noteq> resend_too_soon"
proof (intro conjI)
  show "run demo_state
     [(demo_env_at 0, Send_otp, demo_send_request),
      (demo_env_at 61000, Send_otp, demo_send_request),
      (demo_env_at 122000, Send_otp, demo_send_request),
      (demo_env_at 183000, Send_otp, demo_send_request),
      (demo_env_at 244000, Send_otp, demo_send_request)] = demo_sent 5 244000"
    by (rule demo_five_sends)
  show "status (snd (handle (demo_env_at 244000) Send_otp (demo_sent 4 183000) demo_send_request)) = 200"
    by (simp add: demo_send_next sent_response_def json_response_def del: handle.simps)
  show "map createdAt (otps (demo_sent 5 244000)) = [244000]"
    by (simp add: demo_sent_def)
  show "Date_now (demo_env_at 245000) 0 - 244000 < 60000"
    by (simp add: demo_env_at_def)
  show "snd (handle (demo_env_at 245000) Send_otp (demo_sent 5 244000) demo_send_request)
       = too_many_requests"
    by (simp add: demo_send_limit del: handle.simps)
  show "too_many_requests \<noteq> resend_too_soon"
    by (rule responses_differ)
qed

end
